theory Spec2Isabelle
  imports Main "HOL-Library.Log_Nat"
begin

section \<open>JavaScript values\<close>

text \<open>
  Strings are byte strings (the UTF-8 encoding of the JavaScript string). The server only
  concatenates strings, joins them, scans paths for the ASCII characters \<open>/\<close> and \<open>.\<close>
  and lower-cases extensions, so bytes are enough. An optional argument, an unset
  environment variable and a \<open>null\<close> or missing field of a provider response are
  \<open>None\<close>.
\<close>

definition truthy :: "string option \<Rightarrow> bool" where
  \<comment> \<open>\<open>undefined\<close>, \<open>null\<close> and the empty string are falsy.\<close>
  "truthy v = (case v of None \<Rightarrow> False | Some s \<Rightarrow> s \<noteq> [])"

definition truthy_num :: "int option \<Rightarrow> bool" where
  \<comment> \<open>\<open>undefined\<close> and \<open>0\<close> are falsy (the schema admits no \<open>NaN\<close>).\<close>
  "truthy_num v = (case v of None \<Rightarrow> False | Some n \<Rightarrow> n \<noteq> 0)"

definition js_or :: "string option \<Rightarrow> string option \<Rightarrow> string option" where
  \<comment> \<open>\<open>a || b\<close>\<close>
  "js_or a b = (if truthy a then a else b)"

definition or_default :: "string option \<Rightarrow> string \<Rightarrow> string" where
  \<comment> \<open>\<open>a || 'literal'\<close>\<close>
  "or_default a d = (case a of None \<Rightarrow> d | Some s \<Rightarrow> if s \<noteq> [] then s else d)"

definition to_text :: "string option \<Rightarrow> string" where
  \<comment> \<open>a value interpolated into a template literal\<close>
  "to_text v = (case v of None \<Rightarrow> ''undefined'' | Some s \<Rightarrow> s)"

definition digit_char :: "nat \<Rightarrow> char" where
  "digit_char d = ''0123456789'' ! (d mod 10)"

fun show_nat :: "nat \<Rightarrow> string" where
  "show_nat n = (if n < 10 then [digit_char n] else show_nat (n div 10) @ [digit_char (n mod 10)])"

declare show_nat.simps [simp del]

definition show_int :: "int \<Rightarrow> string" where
  \<comment> \<open>Number to String on an integer (decimal for magnitudes below \<open>10^21\<close>).\<close>
  "show_int i = (if i < 0 then CHR ''-'' # show_nat (nat (- i)) else show_nat (nat i))"

fun join :: "string \<Rightarrow> string list \<Rightarrow> string" where
  \<comment> \<open>\<open>Array.prototype.join\<close>\<close>
  "join sep [] = []"
| "join sep [x] = x"
| "join sep (x # y # ys) = x @ sep @ join sep (y # ys)"

definition lower_char :: "char \<Rightarrow> char" where
  \<comment> \<open>the letters \<open>A\<close> to \<open>Z\<close> go to \<open>a\<close> to \<open>z\<close>, every other byte stays\<close>
  "lower_char c =
     (case map_of (zip ''ABCDEFGHIJKLMNOPQRSTUVWXYZ'' ''abcdefghijklmnopqrstuvwxyz'') c of
        Some l \<Rightarrow> l
      | None \<Rightarrow> c)"

definition toLowerCase :: "string \<Rightarrow> string" where
  \<comment> \<open>on ASCII letters; no other character lower-cases to an extension of the MIME table\<close>
  "toLowerCase s = map lower_char s"

subsection \<open>Errors\<close>

text \<open>
  A thrown error object: its optional \<open>code\<close> (a number or a string, as the provider
  library and the file system set it) and its \<open>message\<close>.
\<close>

datatype err_code = NumCode int | StrCode string

datatype js_error = JsError (err_code: "err_code option") (err_message: string)

definition new_Error :: "string \<Rightarrow> js_error" where
  \<comment> \<open>\<open>new Error(msg)\<close>\<close>
  "new_Error msg = JsError None msg"

definition truthy_code :: "err_code option \<Rightarrow> bool" where
  "truthy_code c = (case c of None \<Rightarrow> False | Some (NumCode n) \<Rightarrow> n \<noteq> 0 | Some (StrCode s) \<Rightarrow> s \<noteq> [])"

definition show_code :: "err_code option \<Rightarrow> string" where
  "show_code c = (case c of None \<Rightarrow> ''undefined'' | Some (NumCode n) \<Rightarrow> show_int n | Some (StrCode s) \<Rightarrow> s)"

section \<open>Node's \<open>path.basename\<close> and \<open>path.extname\<close> (POSIX)\<close>

text \<open>
  Both functions drop trailing separators and look at the last path segment. \<open>extname\<close>
  returns the part of that segment from its last dot on, and the empty string when the
  segment has no dot, starts with its only dot, or is \<open>..\<close>.
\<close>

definition basename :: "string \<Rightarrow> string" where
  "basename p = rev (takeWhile (\<lambda>c. c \<noteq> CHR ''/'') (dropWhile (\<lambda>c. c = CHR ''/'') (rev p)))"

definition extname :: "string \<Rightarrow> string" where
  "extname p =
     (let seg = basename p;
          ext = rev (takeWhile (\<lambda>c. c \<noteq> CHR ''.'') (rev seg));
          stem = rev (drop 1 (dropWhile (\<lambda>c. c \<noteq> CHR ''.'') (rev seg)))
      in if CHR ''.'' \<notin> set seg then []
         else if stem = [] then []
         else if seg = ''..'' then []
         else CHR ''.'' # ext)"

section \<open>Configuration, payloads and the provider client\<close>

text \<open>
  A handler runs after schema validation, so its arguments have the types the schemas
  admit: required strings, optional strings, an optional number, an optional list of
  attachment requests; the template model is opaque. The three environment variables are
  read once into \<open>env\<close>. The provider client, the file system and \<open>fetch\<close> are
  parameters of the handlers. A handler returns the calls it made to the provider together
  with its result: the tool result, or the error it throws. Diagnostic lines written with
  \<open>console.error\<close> are not part of the model.
\<close>

record env =
  serverToken :: "string option"
  defaultSender :: "string option"
  defaultMessageStream :: "string option"

record attachment =
  filePath :: string
  fileName :: "string option"

record encoded_attachment =
  Name :: string
  Content :: string
  ContentType :: string

record email_data =
  From :: "string option"
  To :: string
  Subject :: string
  TextBody :: string
  MessageStream :: "string option"
  TrackOpens :: bool
  TrackLinks :: string
  HtmlBody :: "string option"
  Tag :: "string option"
  Attachments :: "encoded_attachment list option"

record 'm template_data =
  From :: "string option"
  To :: string
  TemplateModel :: 'm
  MessageStream :: "string option"
  TrackOpens :: bool
  TrackLinks :: string
  TemplateId :: "int option"
  TemplateAlias :: "string option"
  Tag :: "string option"

record send_response =
  MessageID :: string

record template =
  Name :: string
  TemplateId :: nat
  Alias :: "string option"
  Subject :: "string option"

record templates_response =
  Templates :: "template list"

text \<open>
  The provider client the handlers are registered with: each method answers a request
  with the provider's response or with the error it throws.
\<close>

record 'm postmark_client =
  getServer :: "js_error + unit"
  sendEmail :: "email_data \<Rightarrow> js_error + send_response"
  sendEmailWithTemplate :: "'m template_data \<Rightarrow> js_error + send_response"
  getTemplates :: "js_error + templates_response"

datatype content_item = TextContent string

type_synonym tool_result = "content_item list"

section \<open>The \<open>sendEmail\<close> tool\<close>

definition MIME_TYPES :: "(string \<times> string) list" where
  "MIME_TYPES =
    [(''.csv'', ''text/csv''),
     (''.txt'', ''text/plain''),
     (''.json'', ''application/json''),
     (''.pdf'', ''application/pdf''),
     (''.png'', ''image/png''),
     (''.jpg'', ''image/jpeg''),
     (''.jpeg'', ''image/jpeg''),
     (''.gif'', ''image/gif''),
     (''.html'', ''text/html''),
     (''.xml'', ''application/xml''),
     (''.zip'', ''application/zip''),
     (''.md'', ''text/markdown'')]"

subsection \<open>Base64 (\<open>Buffer.toString('base64')\<close>)\<close>

definition b64_alphabet :: string where
  "b64_alphabet = ''ABCDEFGHIJKLMNOPQRSTUVWXYZabcdefghijklmnopqrstuvwxyz0123456789+/''"

definition b64_char :: "nat \<Rightarrow> char" where
  "b64_char i = b64_alphabet ! (i mod 64)"

fun base64 :: "string \<Rightarrow> string" where
  "base64 [] = []"
| "base64 [a] =
     (let n = of_char a * 65536
      in [b64_char (n div 262144), b64_char (n div 4096), CHR ''='', CHR ''=''])"
| "base64 [a, b] =
     (let n = of_char a * 65536 + of_char b * 256
      in [b64_char (n div 262144), b64_char (n div 4096), b64_char (n div 64), CHR ''=''])"
| "base64 (a # b # c # rest) =
     (let n = of_char a * 65536 + of_char b * 256 + of_char c
      in [b64_char (n div 262144), b64_char (n div 4096), b64_char (n div 64), b64_char n]
         @ base64 rest)"

subsection \<open>Attachments\<close>

definition contentType_of :: "string \<Rightarrow> string" where
  \<comment> \<open>\<open>MIME_TYPES[ext] || 'application/octet-stream'\<close>\<close>
  "contentType_of ext = or_default (map_of MIME_TYPES ext) ''application/octet-stream''"

definition encode_attachment ::
  "(string \<Rightarrow> js_error + string) \<Rightarrow> attachment \<Rightarrow> js_error + encoded_attachment" where
  \<comment> \<open>the function mapped over \<open>attachments\<close>; \<open>readFileSync\<close> throws on an unreadable path\<close>
  "encode_attachment readFileSync att =
     (case readFileSync (filePath att) of
        Inl e \<Rightarrow> Inl e
      | Inr content \<Rightarrow>
          (let ext = toLowerCase (extname (filePath att));
               name = or_default (fileName att) (basename (filePath att));
               contentType = contentType_of ext
           in Inr \<lparr> encoded_attachment.Name = name,
                    Content = base64 content,
                    ContentType = contentType \<rparr>))"

fun encode_attachments ::
  "(string \<Rightarrow> js_error + string) \<Rightarrow> attachment list \<Rightarrow> js_error + encoded_attachment list" where
  \<comment> \<open>\<open>attachments.map(...)\<close>: in order, the first error aborts\<close>
  "encode_attachments readFileSync [] = Inr []"
| "encode_attachments readFileSync (att # atts) =
     (case encode_attachment readFileSync att of
        Inl e \<Rightarrow> Inl e
      | Inr a \<Rightarrow>
          (case encode_attachments readFileSync atts of
             Inl e \<Rightarrow> Inl e
           | Inr as \<Rightarrow> Inr (a # as)))"

definition attachInfo :: "email_data \<Rightarrow> string" where
  "attachInfo emailData =
     (case email_data.Attachments emailData of
        Some as \<Rightarrow> ''\<newline>Attachments: '' @ join '', '' (map encoded_attachment.Name as)
      | None \<Rightarrow> [])"

definition sendEmail_payload ::
  "env \<Rightarrow> (string \<Rightarrow> js_error + string) \<Rightarrow> string \<Rightarrow> string \<Rightarrow> string \<Rightarrow> string option \<Rightarrow>
   string option \<Rightarrow> string option \<Rightarrow> attachment list option \<Rightarrow> js_error + email_data" where
  \<comment> \<open>the handler up to the provider call: the \<open>emailData\<close> object it builds\<close>
  "sendEmail_payload env readFileSync to subject textBody htmlBody from' tag attachments =
     (let emailData = \<lparr> email_data.From = js_or from' (defaultSender env),
                         To = to,
                         Subject = subject,
                         TextBody = textBody,
                         MessageStream = defaultMessageStream env,
                         TrackOpens = True,
                         TrackLinks = ''HtmlAndText'',
                         HtmlBody = None,
                         Tag = None,
                         Attachments = None \<rparr>;
          emailData = (if truthy htmlBody then emailData\<lparr> email_data.HtmlBody := htmlBody \<rparr> else emailData);
          emailData = (if truthy tag then emailData\<lparr> email_data.Tag := tag \<rparr> else emailData)
      in case attachments of
           None \<Rightarrow> Inr emailData
         | Some atts \<Rightarrow>
             if length atts > 0
             then (case encode_attachments readFileSync atts of
                     Inl e \<Rightarrow> Inl e
                   | Inr as \<Rightarrow> Inr (emailData\<lparr> email_data.Attachments := Some as \<rparr>))
             else Inr emailData)"

definition sendEmail_handler ::
  "env \<Rightarrow> (string \<Rightarrow> js_error + string) \<Rightarrow> 'm postmark_client \<Rightarrow> string \<Rightarrow> string \<Rightarrow> string \<Rightarrow>
   string option \<Rightarrow> string option \<Rightarrow> string option \<Rightarrow> attachment list option \<Rightarrow>
   email_data list \<times> (js_error + tool_result)" where
  \<comment> \<open>returns the payloads sent to the provider and the tool result or the error thrown\<close>
  "sendEmail_handler env readFileSync postmarkClient to subject textBody htmlBody from' tag attachments =
     (case sendEmail_payload env readFileSync to subject textBody htmlBody from' tag attachments of
        Inl e \<Rightarrow> ([], Inl e)
      | Inr emailData \<Rightarrow>
          (case sendEmail postmarkClient emailData of
             Inl e \<Rightarrow> ([emailData], Inl e)
           | Inr result \<Rightarrow>
               ([emailData],
                Inr [TextContent (''Email sent successfully!\<newline>MessageID: '' @ MessageID result
                       @ ''\<newline>To: '' @ to @ ''\<newline>Subject: '' @ subject @ attachInfo emailData)])))"

section \<open>The \<open>sendEmailWithTemplate\<close> tool\<close>

definition template_ref :: "int option \<Rightarrow> string option \<Rightarrow> string" where
  \<comment> \<open>\<open>${templateId || templateAlias}\<close>\<close>
  "template_ref templateId templateAlias =
     (case templateId of
        None \<Rightarrow> to_text templateAlias
      | Some n \<Rightarrow> if n \<noteq> 0 then show_int n else to_text templateAlias)"

definition sendEmailWithTemplate_handler ::
  "env \<Rightarrow> 'm postmark_client \<Rightarrow> string \<Rightarrow> int option \<Rightarrow> string option \<Rightarrow> 'm \<Rightarrow>
   string option \<Rightarrow> string option \<Rightarrow> 'm template_data list \<times> (js_error + tool_result)" where
  "sendEmailWithTemplate_handler env postmarkClient to templateId templateAlias templateModel from' tag =
     (if \<not> truthy_num templateId \<and> \<not> truthy templateAlias
      then ([], Inl (new_Error ''Either templateId or templateAlias must be provided''))
      else
        (let emailData = \<lparr> template_data.From = js_or from' (defaultSender env),
                            To = to,
                            TemplateModel = templateModel,
                            MessageStream = defaultMessageStream env,
                            TrackOpens = True,
                            TrackLinks = ''HtmlAndText'',
                            TemplateId = None,
                            TemplateAlias = None,
                            Tag = None \<rparr>;
             emailData = (if truthy_num templateId
                          then emailData\<lparr> template_data.TemplateId := templateId \<rparr>
                          else emailData\<lparr> template_data.TemplateAlias := templateAlias \<rparr>);
             emailData = (if truthy tag then emailData\<lparr> template_data.Tag := tag \<rparr> else emailData)
         in case sendEmailWithTemplate postmarkClient emailData of
              Inl e \<Rightarrow> ([emailData], Inl e)
            | Inr result \<Rightarrow>
                ([emailData],
                 Inr [TextContent (''Template email sent successfully!\<newline>MessageID: '' @ MessageID result
                        @ ''\<newline>To: '' @ to @ ''\<newline>Template: '' @ template_ref templateId templateAlias)])))"

section \<open>The \<open>listTemplates\<close> tool\<close>

definition bullet :: string where
  \<comment> \<open>the bullet literal as the source file stores it: the three bytes of U+2022, each
      read as a Windows-1252 character and encoded in UTF-8 once more\<close>
  "bullet = [CHR 0xC3, CHR 0xA2, CHR 0xE2, CHR 0x82, CHR 0xAC, CHR 0xC2, CHR 0xA2]"

definition template_block :: "template \<Rightarrow> string" where
  "template_block t =
     bullet @ '' **'' @ template.Name t @ ''**\<newline>  - ID: '' @ show_nat (template.TemplateId t)
       @ ''\<newline>  - Alias: '' @ or_default (Alias t) ''none''
       @ ''\<newline>  - Subject: '' @ or_default (template.Subject t) ''none''"

definition listTemplates_handler :: "'m postmark_client \<Rightarrow> js_error + tool_result" where
  "listTemplates_handler postmarkClient =
     (case getTemplates postmarkClient of
        Inl e \<Rightarrow> Inl e
      | Inr result \<Rightarrow>
          (let templateList = join ''\<newline>\<newline>'' (map template_block (Templates result))
           in Inr [TextContent (''Found '' @ show_nat (length (Templates result)) @ '' templates:\<newline>\<newline>''
                     @ templateList)]))"

section \<open>The \<open>getDeliveryStats\<close> tool\<close>

subsection \<open>Numbers\<close>

text \<open>
  The provider reports counts: non-negative integers, which a double holds exactly below
  \<open>2^53\<close>. A finite double is modelled by the rational it denotes. \<open>binary64\<close> rounds
  a rational to the nearest double (53 significant bits, ties to even); division and
  multiplication of doubles are the exact operation followed by this rounding. Overflow
  and subnormal numbers are outside the range of quotients of such counts and are not
  modelled. Below, \<open>binary64_pos_significand\<close> shows that the rounded significand is
  taken in \<open>[2^52, 2^53)\<close>, and \<open>binary64_exact\<close> that counts below \<open>2^53\<close> are
  doubles.
\<close>

definition round_half_even :: "rat \<Rightarrow> int" where
  "round_half_even x =
     (let f = \<lfloor>x\<rfloor>; d = x - of_int f
      in if d < 1 / 2 then f else if 1 / 2 < d then f + 1 else if even f then f else f + 1)"

definition binary64_pos :: "rat \<Rightarrow> rat" where
  \<comment> \<open>for \<open>x > 0\<close>: scale \<open>x\<close> into \<open>[2^52, 2^53)\<close>, round to an integer, scale back\<close>
  "binary64_pos x =
     (let (a, b) = quotient_of x;
          e0 = bitlen a - bitlen b - 53;
          e = (if 2 ^ 53 \<le> x / 2 powi e0 then e0 + 1 else e0)
      in of_int (round_half_even (x / 2 powi e)) * 2 powi e)"

definition binary64 :: "rat \<Rightarrow> rat" where
  "binary64 x = (if x = 0 then 0 else if x < 0 then - binary64_pos (- x) else binary64_pos x)"

definition fdiv :: "rat \<Rightarrow> rat \<Rightarrow> rat" where
  \<comment> \<open>\<open>a / b\<close> on doubles, \<open>b\<close> not zero\<close>
  "fdiv a b = binary64 (a / b)"

definition fmul :: "rat \<Rightarrow> rat \<Rightarrow> rat" where
  \<comment> \<open>\<open>a * b\<close> on doubles\<close>
  "fmul a b = binary64 (a * b)"

definition toFixed1_tenths :: "rat \<Rightarrow> int" where
  \<comment> \<open>the integer \<open>n\<close> with \<open>n / 10\<close> nearest to \<open>x\<close>, the larger one of two\<close>
  "toFixed1_tenths x = \<lfloor>x * 10 + 1 / 2\<rfloor>"

definition show_tenths :: "nat \<Rightarrow> string" where
  "show_tenths n = show_nat (n div 10) @ ''.'' @ [digit_char (n mod 10)]"

definition toFixed1 :: "rat \<Rightarrow> string" where
  \<comment> \<open>\<open>x.toFixed(1)\<close> for a double of magnitude below \<open>10^21\<close>\<close>
  "toFixed1 x =
     (if x < 0 then CHR ''-'' # show_tenths (nat (toFixed1_tenths (- x)))
      else show_tenths (nat (toFixed1_tenths x)))"

text \<open>
  What rounding to the nearest double means, stated without the algorithm: a double is
  zero or has a significand of 53 bits; the nearest double to \<open>x\<close> is a double at least
  distance from \<open>x\<close>, and of two such doubles the one with the even significand. Below,
  \<open>nearest_double_unique\<close> shows that this determines the double, and
  \<open>binary64_nearest\<close> that \<open>binary64\<close> computes it.
\<close>

definition representable :: "rat \<Rightarrow> bool" where
  "representable r = (r = 0 \<or> (\<exists>(m::int) (e::int). 2 ^ 52 \<le> m \<and> m < 2 ^ 53 \<and> \<bar>r\<bar> = of_int m * 2 powi e))"

definition even_significand :: "rat \<Rightarrow> bool" where
  "even_significand r = (\<exists>(m::int) (e::int). 2 ^ 52 \<le> m \<and> m < 2 ^ 53 \<and> even m \<and> \<bar>r\<bar> = of_int m * 2 powi e)"

definition nearest_double :: "rat \<Rightarrow> rat \<Rightarrow> bool" where
  "nearest_double x r =
     (representable r
      \<and> (\<forall>r'. representable r' \<longrightarrow> \<bar>r - x\<bar> \<le> \<bar>r' - x\<bar>)
      \<and> (\<forall>r'. representable r' \<and> r' \<noteq> r \<and> \<bar>r' - x\<bar> = \<bar>r - x\<bar> \<longrightarrow> even_significand r))"

subsection \<open>The request\<close>

definition hex_digit :: "nat \<Rightarrow> char" where
  "hex_digit d = ''0123456789ABCDEF'' ! (d mod 16)"

definition uri_unreserved :: "char \<Rightarrow> bool" where
  "uri_unreserved c =
     (let n = (of_char c :: nat)
      in (65 \<le> n \<and> n \<le> 90) \<or> (97 \<le> n \<and> n \<le> 122) \<or> (48 \<le> n \<and> n \<le> 57)
         \<or> c \<in> set ''-_.!~*'()'')"

definition encodeURIComponent :: "string \<Rightarrow> string" where
  "encodeURIComponent s =
     concat (map (\<lambda>c. if uri_unreserved c then [c]
                       else [CHR ''%'', hex_digit (of_char c div 16), hex_digit (of_char c mod 16)]) s)"

record http_request =
  url :: string
  headers :: "(string \<times> string option) list"

text \<open>
  A field of the statistics body is missing, \<open>null\<close> or a count.
\<close>

datatype json_num = Missing | Null | Num nat

record stats_data =
  Sent :: json_num
  Tracked :: json_num
  UniqueOpens :: json_num
  TotalTrackedLinksSent :: json_num
  UniqueLinksClicked :: json_num

record http_response =
  status :: nat
  statusText :: string
  json :: "js_error + stats_data"

definition ok :: "http_response \<Rightarrow> bool" where
  \<comment> \<open>\<open>response.ok\<close>\<close>
  "ok response = (200 \<le> status response \<and> status response < 300)"

definition or_zero :: "json_num \<Rightarrow> nat" where
  \<comment> \<open>\<open>field || 0\<close>\<close>
  "or_zero v = (case v of Num n \<Rightarrow> if n \<noteq> 0 then n else 0 | _ \<Rightarrow> 0)"

definition stats_query :: "string option \<Rightarrow> string option \<Rightarrow> string option \<Rightarrow> string list" where
  "stats_query tag fromDate toDate =
     (let query = [];
          query = (if truthy fromDate then query @ [''fromdate='' @ encodeURIComponent (to_text fromDate)] else query);
          query = (if truthy toDate then query @ [''todate='' @ encodeURIComponent (to_text toDate)] else query);
          query = (if truthy tag then query @ [''tag='' @ encodeURIComponent (to_text tag)] else query)
      in query)"

definition stats_request :: "env \<Rightarrow> string option \<Rightarrow> string option \<Rightarrow> string option \<Rightarrow> http_request" where
  "stats_request env tag fromDate toDate =
     (let query = stats_query tag fromDate toDate
      in \<lparr> url = ''https://api.postmarkapp.com/stats/outbound''
                   @ (if length query \<noteq> 0 then ''?'' @ join ''&'' query else []),
           headers = [(''Accept'', Some ''application/json''),
                      (''X-Postmark-Server-Token'', serverToken env)] \<rparr>)"

subsection \<open>The summary\<close>

definition percentage :: "nat \<Rightarrow> nat \<Rightarrow> string" where
  \<comment> \<open>\<open>den > 0 ? ((num / den) * 100).toFixed(1) : '0.0'\<close>\<close>
  "percentage num den =
     (if den > 0 then toFixed1 (fmul (fdiv (of_nat num) (of_nat den)) 100) else ''0.0'')"

definition stats_text :: "stats_data \<Rightarrow> string option \<Rightarrow> string option \<Rightarrow> string option \<Rightarrow> string" where
  "stats_text data tag fromDate toDate =
     (let sent = or_zero (Sent data);
          tracked = or_zero (Tracked data);
          uniqueOpens = or_zero (UniqueOpens data);
          totalTrackedLinks = or_zero (TotalTrackedLinksSent data);
          uniqueLinksClicked = or_zero (UniqueLinksClicked data);
          openRate = percentage uniqueOpens tracked;
          clickRate = percentage uniqueLinksClicked totalTrackedLinks
      in ''Email Statistics Summary\<newline>\<newline>''
         @ ''Sent: '' @ show_nat sent @ '' emails\<newline>''
         @ ''Open Rate: '' @ openRate @ ''% ('' @ show_nat uniqueOpens @ ''/'' @ show_nat tracked
         @ '' tracked emails)\<newline>''
         @ ''Click Rate: '' @ clickRate @ ''% ('' @ show_nat uniqueLinksClicked @ ''/''
         @ show_nat totalTrackedLinks @ '' tracked links)\<newline>\<newline>''
         @ (if truthy fromDate \<or> truthy toDate
            then ''Period: '' @ or_default fromDate ''start'' @ '' to '' @ or_default toDate ''now''
                 @ ''\<newline>''
            else [])
         @ (if truthy tag then ''Tag: '' @ to_text tag @ ''\<newline>'' else []))"

definition getDeliveryStats_handler ::
  "env \<Rightarrow> (http_request \<Rightarrow> js_error + http_response) \<Rightarrow> string option \<Rightarrow> string option \<Rightarrow>
   string option \<Rightarrow> http_request list \<times> (js_error + tool_result)" where
  \<comment> \<open>returns the requests made and the tool result or the error thrown\<close>
  "getDeliveryStats_handler env fetch tag fromDate toDate =
     (let request = stats_request env tag fromDate toDate
      in case fetch request of
           Inl e \<Rightarrow> ([request], Inl e)
         | Inr response \<Rightarrow>
             if \<not> ok response
             then ([request],
                   Inl (new_Error (''API request failed: '' @ show_nat (status response) @ '' ''
                                   @ statusText response)))
             else (case json response of
                     Inl e \<Rightarrow> ([request], Inl e)
                   | Inr data \<Rightarrow>
                       ([request], Inr [TextContent (stats_text data tag fromDate toDate)])))"

section \<open>Start-up\<close>

datatype 'm init_outcome =
    ProcessExit string nat
  | Throws js_error
  | Initialized "'m postmark_client"

definition initializeServices :: "env \<Rightarrow> (string \<Rightarrow> 'm postmark_client) \<Rightarrow> 'm init_outcome" where
  \<comment> \<open>\<open>ServerClient\<close> is the provider library's constructor; \<open>ProcessExit\<close> carries the line
      written to the error stream and the exit code\<close>
  "initializeServices env ServerClient =
     (case serverToken env of
        None \<Rightarrow> ProcessExit ''[ERROR] POSTMARK_SERVER_TOKEN is not set'' 1
      | Some token \<Rightarrow>
          if token = [] then ProcessExit ''[ERROR] POSTMARK_SERVER_TOKEN is not set'' 1
          else if \<not> truthy (defaultSender env) then ProcessExit ''[ERROR] DEFAULT_SENDER_EMAIL is not set'' 1
          else if \<not> truthy (defaultMessageStream env)
          then ProcessExit ''[ERROR] DEFAULT_MESSAGE_STREAM is not set'' 1
          else
            (let client = ServerClient token
             in case getServer client of
                  Inr u \<Rightarrow> Initialized client
                | Inl error \<Rightarrow>
                    if truthy_code (err_code error) \<or> err_message error \<noteq> []
                    then Throws (new_Error (''Initialization failed: ''
                           @ (if truthy_code (err_code error) then show_code (err_code error) @ '' - '' else [])
                           @ err_message error))
                    else Throws (new_Error ''Initialization failed: An unexpected error occurred'')))"

section \<open>Example configuration\<close>

definition example_env :: env where
  "example_env = \<lparr> serverToken = Some ''token-1'',
                    defaultSender = Some ''sender@example.com'',
                    defaultMessageStream = Some ''outbound'' \<rparr>"

definition example_templates :: "template list" where
  "example_templates =
     [\<lparr> template.Name = ''Basic'', TemplateId = 12345678, Alias = Some ''basic'', Subject = None \<rparr>,
      \<lparr> template.Name = ''Welcome'', TemplateId = 2345679, Alias = None, Subject = Some ''Hello'' \<rparr>]"

definition example_client :: "unit postmark_client" where
  \<comment> \<open>a provider that accepts every message\<close>
  "example_client =
     \<lparr> getServer = Inr (),
       sendEmail = (\<lambda>d. Inr \<lparr> MessageID = ''m-1'' \<rparr>),
       sendEmailWithTemplate = (\<lambda>d. Inr \<lparr> MessageID = ''m-2'' \<rparr>),
       getTemplates = Inr \<lparr> Templates = example_templates \<rparr> \<rparr>"

definition failing_client :: "unit postmark_client" where
  \<comment> \<open>a provider that rejects the credential\<close>
  "failing_client =
     \<lparr> getServer = Inl (JsError (Some (NumCode 10)) ''Request does not contain a valid Server token.''),
       sendEmail = (\<lambda>d. Inl (JsError (Some (NumCode 10)) ''Request does not contain a valid Server token.'')),
       sendEmailWithTemplate = (\<lambda>d. Inl (JsError (Some (NumCode 10)) ''Request does not contain a valid Server token.'')),
       getTemplates = Inl (JsError (Some (NumCode 10)) ''Request does not contain a valid Server token.'') \<rparr>"

definition example_files :: "string \<Rightarrow> js_error + string" where
  \<comment> \<open>a file system holding two files\<close>
  "example_files p =
     (if p = ''/tmp/r.csv'' then Inr ''a,b''
      else if p = ''/tmp/Chart.PNG'' then Inr ''png''
      else Inl (JsError (Some (StrCode ''ENOENT'')) (''ENOENT: no such file or directory, open '' @ p)))"

definition example_attachments :: "attachment list" where
  "example_attachments =
     [\<lparr> filePath = ''/tmp/r.csv'', fileName = None \<rparr>,
      \<lparr> filePath = ''/tmp/Chart.PNG'', fileName = Some ''chart.png'' \<rparr>]"

definition example_payload :: email_data where
  "example_payload =
     \<lparr> email_data.From = Some ''sender@example.com'', To = ''a@example.com'', Subject = ''Hi'',
       TextBody = ''Hello'', MessageStream = Some ''outbound'', TrackOpens = True,
       TrackLinks = ''HtmlAndText'', HtmlBody = None, Tag = None,
       Attachments = Some
         [\<lparr> encoded_attachment.Name = ''r.csv'', Content = ''YSxi'', ContentType = ''text/csv'' \<rparr>,
          \<lparr> encoded_attachment.Name = ''chart.png'', Content = ''cG5n'', ContentType = ''image/png'' \<rparr>] \<rparr>"

definition example_template_payload :: "unit template_data" where
  "example_template_payload =
     \<lparr> template_data.From = Some ''sender@example.com'', To = ''customer@example.com'',
       TemplateModel = (), MessageStream = Some ''outbound'', TrackOpens = True,
       TrackLinks = ''HtmlAndText'', TemplateId = Some 12345, TemplateAlias = None, Tag = None \<rparr>"

definition one_template_client :: "unit postmark_client" where
  \<comment> \<open>a provider account with a single template\<close>
  "one_template_client =
     \<lparr> getServer = Inr (),
       sendEmail = (\<lambda>d. Inr \<lparr> MessageID = ''m-1'' \<rparr>),
       sendEmailWithTemplate = (\<lambda>d. Inr \<lparr> MessageID = ''m-2'' \<rparr>),
       getTemplates = Inr \<lparr> Templates =
         [\<lparr> template.Name = ''Basic'', TemplateId = 7, Alias = Some ''basic'', Subject = None \<rparr>] \<rparr> \<rparr>"

definition unauthorized_fetch :: "http_request \<Rightarrow> js_error + http_response" where
  \<comment> \<open>a provider that answers every statistics request with status 401\<close>
  "unauthorized_fetch request =
     Inr \<lparr> status = 401, statusText = ''Unauthorized'',
           json = Inl (JsError None ''invalid json response body'') \<rparr>"

definition failing_ServerClient :: "string \<Rightarrow> unit postmark_client" where
  \<comment> \<open>the client constructor against a provider that rejects every credential\<close>
  "failing_ServerClient token = failing_client"

definition scenario_data :: stats_data where
  "scenario_data = \<lparr> Sent = Num 100, Tracked = Num 99, UniqueOpens = Num 45,
                      TotalTrackedLinksSent = Num 99, UniqueLinksClicked = Num 15 \<rparr>"

definition scenario_response :: http_response where
  "scenario_response = \<lparr> status = 200, statusText = ''OK'', json = Inr scenario_data \<rparr>"

definition scenario_fetch :: "http_request \<Rightarrow> js_error + http_response" where
  \<comment> \<open>a provider that answers every statistics request with the counts above\<close>
  "scenario_fetch request = Inr scenario_response"

definition empty_data :: stats_data where
  "empty_data = \<lparr> Sent = Missing, Tracked = Null, UniqueOpens = Num 0,
                   TotalTrackedLinksSent = Missing, UniqueLinksClicked = Null \<rparr>"

definition empty_response :: http_response where
  "empty_response = \<lparr> status = 200, statusText = ''OK'', json = Inr empty_data \<rparr>"

definition empty_fetch :: "http_request \<Rightarrow> js_error + http_response" where
  \<comment> \<open>a provider that answers every statistics request with a body without counts\<close>
  "empty_fetch request = Inr empty_response"

definition ties_data :: stats_data where
  "ties_data = \<lparr> Sent = Num 80, Tracked = Num 80, UniqueOpens = Num 23,
                  TotalTrackedLinksSent = Num 48, UniqueLinksClicked = Num 3 \<rparr>"

definition ties_response :: http_response where
  "ties_response = \<lparr> status = 200, statusText = ''OK'', json = Inr ties_data \<rparr>"

definition ties_fetch :: "http_request \<Rightarrow> js_error + http_response" where
  \<comment> \<open>a provider whose counts give the exact percentages 28.75 and 6.25\<close>
  "ties_fetch request = Inr ties_response"

section \<open>The formats the specification states\<close>

definition resolved_name :: "attachment \<Rightarrow> string" where
  \<comment> \<open>the override when it is given and not empty, the final path segment otherwise\<close>
  "resolved_name att =
     (case fileName att of
        None \<Rightarrow> basename (filePath att)
      | Some n \<Rightarrow> if n = [] then basename (filePath att) else n)"

definition claimed_name :: "attachment \<Rightarrow> string" where
  \<comment> \<open>the override whenever it is given, the final path segment otherwise\<close>
  "claimed_name att = (case fileName att of None \<Rightarrow> basename (filePath att) | Some n \<Rightarrow> n)"

definition claimed_bullet :: string where
  \<comment> \<open>the bullet U+2022 in UTF-8\<close>
  "claimed_bullet = [CHR 0xE2, CHR 0x80, CHR 0xA2]"

definition claimed_template_block :: "template \<Rightarrow> string" where
  \<comment> \<open>the block with the bullet and a plain name\<close>
  "claimed_template_block t =
     claimed_bullet @ '' '' @ template.Name t @ ''\<newline>  - ID: '' @ show_nat (template.TemplateId t)
       @ ''\<newline>  - Alias: '' @ (case Alias t of None \<Rightarrow> ''none'' | Some a \<Rightarrow> a)
       @ ''\<newline>  - Subject: '' @ (case template.Subject t of None \<Rightarrow> ''none'' | Some s \<Rightarrow> s)"

definition claimed_templates_text :: "template list \<Rightarrow> string" where
  "claimed_templates_text ts =
     ''Found '' @ show_nat (length ts) @ '' templates:\<newline>\<newline>''
       @ join ''\<newline>\<newline>'' (map claimed_template_block ts)"

definition claimed_rate :: "nat \<Rightarrow> nat \<Rightarrow> string" where
  \<comment> \<open>the exact percentage rounded to one decimal place, a half going up\<close>
  "claimed_rate num den =
     (if den = 0 then ''0.0''
      else show_tenths (nat \<lfloor>100 * of_nat num / (of_nat den :: rat) * 10 + 1 / 2\<rfloor>))"

definition falsy :: "json_num \<Rightarrow> bool" where
  \<comment> \<open>a statistics field that is missing, \<open>null\<close> or zero\<close>
  "falsy v = (v = Missing \<or> v = Null \<or> v = Num 0)"

definition summary_text :: "nat \<Rightarrow> string \<Rightarrow> nat \<Rightarrow> nat \<Rightarrow> string \<Rightarrow> nat \<Rightarrow> nat \<Rightarrow> string" where
  \<comment> \<open>the statistics summary for given counts and rates\<close>
  "summary_text sent openRate uniqueOpens tracked clickRate uniqueLinksClicked totalTrackedLinks =
     ''Email Statistics Summary\<newline>\<newline>Sent: '' @ show_nat sent @ '' emails\<newline>Open Rate: '' @ openRate
       @ ''% ('' @ show_nat uniqueOpens @ ''/'' @ show_nat tracked @ '' tracked emails)\<newline>Click Rate: ''
       @ clickRate @ ''% ('' @ show_nat uniqueLinksClicked @ ''/'' @ show_nat totalTrackedLinks
       @ '' tracked links)\<newline>\<newline>''"

definition period_lines :: "string option \<Rightarrow> string option \<Rightarrow> string option \<Rightarrow> string" where
  \<comment> \<open>the optional period and tag lines that end the summary\<close>
  "period_lines tag fromDate toDate =
     (if truthy fromDate \<or> truthy toDate
      then ''Period: '' @ or_default fromDate ''start'' @ '' to '' @ or_default toDate ''now'' @ ''\<newline>''
      else [])
     @ (if truthy tag then ''Tag: '' @ to_text tag @ ''\<newline>'' else [])"

section \<open>Attachments and payloads\<close>

lemma encode_attachment_Inr:
  "readFileSync (filePath att) = Inr c \<Longrightarrow>
   encode_attachment readFileSync att =
     Inr \<lparr> encoded_attachment.Name = resolved_name att, Content = base64 c,
           ContentType = contentType_of (toLowerCase (extname (filePath att))) \<rparr>"
  by (simp add: encode_attachment_def resolved_name_def or_default_def Let_def split: option.splits)

lemma encode_attachment_Inl:
  "readFileSync (filePath att) = Inl e \<Longrightarrow> encode_attachment readFileSync att = Inl e"
  by (simp add: encode_attachment_def)

lemma encode_attachments_readable:
  "\<forall>a \<in> set atts. \<exists>c. readFileSync (filePath a) = Inr c \<Longrightarrow>
   \<exists>as. encode_attachments readFileSync atts = Inr as
        \<and> map encoded_attachment.Name as = map resolved_name atts"
proof (induction atts)
  case Nil
  then show ?case by simp
next
  case (Cons a atts)
  from Cons.prems obtain c where c: "readFileSync (filePath a) = Inr c" by auto
  from Cons obtain as where as: "encode_attachments readFileSync atts = Inr as"
    "map encoded_attachment.Name as = map resolved_name atts"
    by auto
  show ?case using as c by (simp add: encode_attachment_Inr [of readFileSync a c])
qed

lemma encode_attachments_names:
  "encode_attachments readFileSync atts = Inr as \<Longrightarrow>
   map encoded_attachment.Name as = map resolved_name atts \<and> length as = length atts"
proof (induction atts arbitrary: as)
  case Nil
  then show ?case by simp
next
  case (Cons a atts)
  then show ?case
    by (cases "readFileSync (filePath a)")
       (auto simp: encode_attachment_Inr encode_attachment_Inl split: sum.splits)
qed

lemma sendEmail_payload_fixed:
  "sendEmail_payload env readFileSync to subject textBody htmlBody from' tag attachments = Inr p \<Longrightarrow>
   email_data.TrackOpens p \<and> email_data.TrackLinks p = ''HtmlAndText''
   \<and> email_data.MessageStream p = defaultMessageStream env
   \<and> email_data.To p = to \<and> email_data.Subject p = subject"
  by (auto simp: sendEmail_payload_def Let_def split: option.splits if_splits sum.splits)

lemma sendEmail_payload_attachments:
  "sendEmail_payload env readFileSync to subject textBody htmlBody from' tag attachments = Inr p \<Longrightarrow>
   email_data.Attachments p =
     (case attachments of
        None \<Rightarrow> None
      | Some atts \<Rightarrow> if atts = [] then None
                     else (case encode_attachments readFileSync atts of Inr as \<Rightarrow> Some as | Inl e \<Rightarrow> None))"
  by (auto simp: sendEmail_payload_def Let_def split: option.splits if_splits sum.splits)

lemma sendEmail_handler_calls:
  "p \<in> set (fst (sendEmail_handler env readFileSync client to subject textBody htmlBody from' tag attachments))
   \<Longrightarrow> sendEmail_payload env readFileSync to subject textBody htmlBody from' tag attachments = Inr p"
  by (auto simp: sendEmail_handler_def split: sum.splits)

lemma template_payload_one_reference:
  "p \<in> set (fst (sendEmailWithTemplate_handler env client to templateId templateAlias templateModel from' tag))
   \<Longrightarrow> (template_data.TemplateId p = None) \<noteq> (template_data.TemplateAlias p = None)"
  by (auto simp: sendEmailWithTemplate_handler_def Let_def truthy_num_def truthy_def
           split: if_splits sum.splits option.splits)

lemma template_neither_rejected:
  "\<not> truthy_num templateId \<Longrightarrow> \<not> truthy templateAlias \<Longrightarrow>
   sendEmailWithTemplate_handler env client to templateId templateAlias templateModel from' tag =
     ([], Inl (new_Error ''Either templateId or templateAlias must be provided''))"
  by (simp add: sendEmailWithTemplate_handler_def)

lemma basename_examples:
  "basename ''/tmp/r.csv'' = ''r.csv''" "basename ''/foo/bar/baz/asdf/quux.html'' = ''quux.html''"
  "basename ''/tmp/dir/'' = ''dir''" "basename ''report.pdf'' = ''report.pdf''" "basename ''/'' = []"
  by (simp_all add: basename_def)

lemma extname_examples:
  "extname ''index.html'' = ''.html''" "extname ''index.coffee.md'' = ''.md''"
  "extname ''index.'' = ''.''" "extname ''index'' = []" "extname ''.index'' = []"
  "extname ''.index.md'' = ''.md''" "extname ''/tmp/a.b/c'' = []" "extname ''..'' = []"
  by (simp_all add: extname_def basename_def)

lemma extname_shape: "extname p = [] \<or> hd (toLowerCase (extname p)) = CHR ''.''"
  by (simp add: extname_def toLowerCase_def lower_char_def Let_def)

lemmas example_defs =
  example_env_def example_client_def example_files_def example_attachments_def example_payload_def
  example_template_payload_def

lemmas string_defs =
  truthy_def truthy_num_def js_or_def or_default_def to_text_def show_int_def show_nat.simps
  digit_char_def toLowerCase_def lower_char_def basename_def extname_def

lemma example_encoded:
  "encode_attachments example_files example_attachments =
     Inr [\<lparr> encoded_attachment.Name = ''r.csv'', Content = ''YSxi'', ContentType = ''text/csv'' \<rparr>,
          \<lparr> encoded_attachment.Name = ''chart.png'', Content = ''cG5n'', ContentType = ''image/png'' \<rparr>]"
  by (simp add: encode_attachment_def example_defs string_defs contentType_of_def MIME_TYPES_def Let_def
        b64_char_def b64_alphabet_def)

lemma example_send:
  "sendEmail_handler example_env example_files example_client ''a@example.com'' ''Hi'' ''Hello''
     None None None (Some example_attachments) =
   ([example_payload],
    Inr [TextContent
      ''Email sent successfully!\<newline>MessageID: m-1\<newline>To: a@example.com\<newline>Subject: Hi\<newline>Attachments: r.csv, chart.png''])"
  by (simp add: sendEmail_handler_def sendEmail_payload_def example_encoded attachInfo_def Let_def
        example_env_def example_client_def example_payload_def truthy_def js_or_def)
    (simp add: example_attachments_def)

lemma example_send_plain:
  "sendEmail_handler example_env example_files example_client ''a@example.com'' ''Hi'' ''Hello''
     None None None None =
   ([example_payload\<lparr> email_data.Attachments := None \<rparr>],
    Inr [TextContent
      ''Email sent successfully!\<newline>MessageID: m-1\<newline>To: a@example.com\<newline>Subject: Hi''])"
  by (simp add: sendEmail_handler_def sendEmail_payload_def attachInfo_def Let_def
        example_env_def example_client_def example_payload_def truthy_def js_or_def)

lemma example_send_template:
  "sendEmailWithTemplate_handler example_env example_client ''customer@example.com''
     (Some 12345) (Some ''welcome'') () None None =
   ([example_template_payload],
    Inr [TextContent
      ''Template email sent successfully!\<newline>MessageID: m-2\<newline>To: customer@example.com\<newline>Template: 12345''])"
  by (simp add: sendEmailWithTemplate_handler_def example_defs Let_def string_defs template_ref_def)

section \<open>Template messages\<close>

text \<open>
  C1. The claim: a template message needs exactly one of \<open>templateId\<close> and
  \<open>templateAlias\<close>, and an invocation giving both fails before the provider is called.
  The handler rejects only the invocation that gives neither. With id 12345 and alias
  \<open>welcome\<close> it calls the provider once, with the id as the only template reference,
  and reports success.
\<close>

theorem C1_both_references_accepted:
  "sendEmailWithTemplate_handler example_env example_client ''customer@example.com''
     (Some 12345) (Some ''welcome'') () None None =
   ([\<lparr> template_data.From = Some ''sender@example.com'', To = ''customer@example.com'',
        TemplateModel = (), MessageStream = Some ''outbound'', TrackOpens = True,
        TrackLinks = ''HtmlAndText'', TemplateId = Some 12345, TemplateAlias = None, Tag = None \<rparr>],
    Inr [TextContent
      ''Template email sent successfully!\<newline>MessageID: m-2\<newline>To: customer@example.com\<newline>Template: 12345''])"
  by (simp add: example_send_template example_template_payload_def)

text \<open>
  C9. Presence of a template reference is decided by truthiness: with \<open>templateId\<close> 0 and
  no alias the handler throws "Either templateId or templateAlias must be provided" without
  calling the provider, and with \<open>templateId\<close> 0 and a (non-empty) alias it sends one
  payload that refers to the template by the alias and carries no id.
\<close>

theorem C9_zero_id_is_absent:
  "sendEmailWithTemplate_handler env client to (Some 0) None templateModel from' tag =
     ([], Inl (new_Error ''Either templateId or templateAlias must be provided''))
   \<and> (alias \<noteq> [] \<longrightarrow>
        fst (sendEmailWithTemplate_handler env client to (Some 0) (Some alias) templateModel from' tag) =
          [\<lparr> template_data.From = js_or from' (defaultSender env), To = to,
              TemplateModel = templateModel, MessageStream = defaultMessageStream env,
              TrackOpens = True, TrackLinks = ''HtmlAndText'', TemplateId = None,
              TemplateAlias = Some alias, Tag = (if truthy tag then tag else None) \<rparr>])"
  by (auto simp: sendEmailWithTemplate_handler_def Let_def truthy_num_def truthy_def
           split: sum.splits)

theorem C9_witness:
  "''welcome'' \<noteq> [] \<and>
   sendEmailWithTemplate_handler example_env example_client ''a@example.com'' (Some 0) None () None None =
     ([], Inl (new_Error ''Either templateId or templateAlias must be provided'')) \<and>
   fst (sendEmailWithTemplate_handler example_env example_client ''a@example.com'' (Some 0)
          (Some ''welcome'') () None None) =
     [\<lparr> template_data.From = Some ''sender@example.com'', To = ''a@example.com'',
        TemplateModel = (), MessageStream = Some ''outbound'',
        TrackOpens = True, TrackLinks = ''HtmlAndText'', TemplateId = None,
        TemplateAlias = Some ''welcome'', Tag = None \<rparr>]"
  using C9_zero_id_is_absent [of example_env example_client "''a@example.com''" "()" None None "''welcome''"]
  by (simp add: example_env_def js_or_def truthy_def)

section \<open>The payload sent to the provider\<close>

text \<open>
  C6. Every payload that \<open>sendEmail\<close> or \<open>sendEmailWithTemplate\<close> hands to the provider
  has \<open>TrackOpens\<close> true, \<open>TrackLinks\<close> "HtmlAndText" and the configured message stream,
  whatever the arguments; a \<open>sendEmail\<close> payload has an \<open>Attachments\<close> field exactly
  when a non-empty attachment list was supplied (a template payload has no such field).
\<close>

theorem C6_fixed_tracking_policy:
  "(p \<in> set (fst (sendEmail_handler env readFileSync client to subject textBody htmlBody from' tag attachments))
     \<longrightarrow> email_data.TrackOpens p \<and> email_data.TrackLinks p = ''HtmlAndText''
         \<and> email_data.MessageStream p = defaultMessageStream env
         \<and> ((email_data.Attachments p \<noteq> None) = (\<exists>atts. attachments = Some atts \<and> atts \<noteq> [])))
   \<and> (q \<in> set (fst (sendEmailWithTemplate_handler env tclient tto templateId templateAlias templateModel tfrom ttag))
     \<longrightarrow> template_data.TrackOpens q \<and> template_data.TrackLinks q = ''HtmlAndText''
         \<and> template_data.MessageStream q = defaultMessageStream env)"
proof (intro conjI impI)
  assume p: "p \<in> set (fst (sendEmail_handler env readFileSync client to subject textBody htmlBody from' tag attachments))"
  then have pl: "sendEmail_payload env readFileSync to subject textBody htmlBody from' tag attachments = Inr p"
    by (rule sendEmail_handler_calls)
  from sendEmail_payload_fixed [OF pl]
  show "email_data.TrackOpens p" "email_data.TrackLinks p = ''HtmlAndText''"
    "email_data.MessageStream p = defaultMessageStream env" by simp_all
  show "(email_data.Attachments p \<noteq> None) = (\<exists>atts. attachments = Some atts \<and> atts \<noteq> [])"
    using pl by (auto simp: sendEmail_payload_def Let_def split: option.splits if_splits sum.splits)
next
  assume q: "q \<in> set (fst (sendEmailWithTemplate_handler env tclient tto templateId templateAlias templateModel tfrom ttag))"
  then show "template_data.TrackOpens q" "template_data.TrackLinks q = ''HtmlAndText''"
    "template_data.MessageStream q = defaultMessageStream env"
    by (auto simp: sendEmailWithTemplate_handler_def Let_def split: if_splits sum.splits)
qed

theorem C6_witness:
  "example_payload \<in> set (fst (sendEmail_handler example_env example_files example_client
       ''a@example.com'' ''Hi'' ''Hello'' None None None (Some example_attachments)))
   \<and> email_data.TrackOpens example_payload
   \<and> email_data.TrackLinks example_payload = ''HtmlAndText''
   \<and> email_data.MessageStream example_payload = defaultMessageStream example_env
   \<and> email_data.Attachments example_payload \<noteq> None
   \<and> example_template_payload \<in> set (fst (sendEmailWithTemplate_handler example_env example_client
       ''customer@example.com'' (Some 12345) (Some ''welcome'') () None None))
   \<and> template_data.TrackOpens example_template_payload
   \<and> template_data.TrackLinks example_template_payload = ''HtmlAndText''
   \<and> template_data.MessageStream example_template_payload = defaultMessageStream example_env"
  using C6_fixed_tracking_policy [where p = example_payload and env = example_env
          and readFileSync = example_files and client = example_client and to = "''a@example.com''"
          and subject = "''Hi''" and textBody = "''Hello''" and htmlBody = None and from' = None
          and tag = None and attachments = "Some example_attachments"
          and q = example_template_payload and tclient = example_client
          and tto = "''customer@example.com''" and templateId = "Some 12345"
          and templateAlias = "Some ''welcome''" and templateModel = "()" and tfrom = None
          and ttag = None]
  by (simp only: example_send example_send_template)
     (simp add: example_payload_def example_template_payload_def example_env_def)

section \<open>The \<open>sendEmail\<close> result\<close>

text \<open>
  C7. A successful \<open>sendEmail\<close> made one provider call, and its result text is
  "Email sent successfully!", the provider's message id, the recipient and the subject on
  four lines, followed by an "Attachments:" line with the comma-separated names exactly
  when a non-empty attachment list was supplied, and by nothing otherwise.
\<close>

theorem C7_result_text:
  assumes "snd (sendEmail_handler env readFileSync client to subject textBody htmlBody from' tag attachments) = Inr r"
  shows "\<exists>p res. fst (sendEmail_handler env readFileSync client to subject textBody htmlBody from' tag attachments) = [p]
           \<and> sendEmail client p = Inr res
           \<and> r = [TextContent (''Email sent successfully!\<newline>MessageID: '' @ MessageID res
                    @ ''\<newline>To: '' @ to @ ''\<newline>Subject: '' @ subject
                    @ (case attachments of
                         None \<Rightarrow> []
                       | Some atts \<Rightarrow> if atts = [] then []
                                      else ''\<newline>Attachments: '' @ join '', '' (map resolved_name atts)))]"
proof -
  from assms obtain p where
    p: "sendEmail_payload env readFileSync to subject textBody htmlBody from' tag attachments = Inr p"
    by (auto simp: sendEmail_handler_def split: sum.splits)
  with assms obtain res where res: "sendEmail client p = Inr res"
    by (auto simp: sendEmail_handler_def split: sum.splits)
  have info: "attachInfo p =
     (case attachments of
        None \<Rightarrow> []
      | Some atts \<Rightarrow> if atts = [] then []
                     else ''\<newline>Attachments: '' @ join '', '' (map resolved_name atts))"
    using sendEmail_payload_attachments [OF p] p
    by (auto simp: attachInfo_def sendEmail_payload_def Let_def encode_attachments_names
             split: option.splits sum.splits if_splits)
  show ?thesis using assms p res info by (auto simp: sendEmail_handler_def)
qed

theorem C7_witness:
  "snd (sendEmail_handler example_env example_files example_client ''a@example.com'' ''Hi'' ''Hello''
          None None None None) =
     Inr [TextContent ''Email sent successfully!\<newline>MessageID: m-1\<newline>To: a@example.com\<newline>Subject: Hi'']
   \<and> fst (sendEmail_handler example_env example_files example_client ''a@example.com'' ''Hi'' ''Hello''
          None None None None) = [example_payload\<lparr> email_data.Attachments := None \<rparr>]
   \<and> snd (sendEmail_handler example_env example_files example_client ''a@example.com'' ''Hi'' ''Hello''
          None None None (Some example_attachments)) =
     Inr [TextContent ''Email sent successfully!\<newline>MessageID: m-1\<newline>To: a@example.com\<newline>Subject: Hi\<newline>Attachments: r.csv, chart.png'']"
proof -
  have plain: "snd (sendEmail_handler example_env example_files example_client ''a@example.com'' ''Hi''
      ''Hello'' None None None None) =
     Inr [TextContent ''Email sent successfully!\<newline>MessageID: m-1\<newline>To: a@example.com\<newline>Subject: Hi'']"
    by (simp add: example_send_plain)
  have att: "snd (sendEmail_handler example_env example_files example_client ''a@example.com'' ''Hi''
      ''Hello'' None None None (Some example_attachments)) =
     Inr [TextContent ''Email sent successfully!\<newline>MessageID: m-1\<newline>To: a@example.com\<newline>Subject: Hi\<newline>Attachments: r.csv, chart.png'']"
    by (simp add: example_send)
  from C7_result_text [OF plain] C7_result_text [OF att] plain att
  show ?thesis by (simp add: example_send_plain)
qed

section \<open>Attachment names and content types\<close>

text \<open>
  C3. The claim: each encoded attachment is named by \<open>fileName\<close> whenever it is given.
  An attachment whose \<open>fileName\<close> is the empty string is named by the final segment of
  its path instead.
\<close>

theorem C3_counterexample:
  "encode_attachments example_files [\<lparr> filePath = ''/tmp/r.csv'', fileName = Some [] \<rparr>] =
     Inr [\<lparr> encoded_attachment.Name = ''r.csv'', Content = ''YSxi'', ContentType = ''text/csv'' \<rparr>]
   \<and> claimed_name \<lparr> filePath = ''/tmp/r.csv'', fileName = Some [] \<rparr> \<noteq> ''r.csv''"
  by (simp add: encode_attachment_def example_files_def claimed_name_def string_defs
        contentType_of_def MIME_TYPES_def Let_def b64_char_def b64_alphabet_def)

text \<open>
  C3, amended. For a non-empty attachment list whose files are all readable, the payload
  carries one encoded attachment per request, in the order of the requests; each is named
  by \<open>fileName\<close> when that is given and not empty, and by the final segment of
  \<open>filePath\<close> otherwise; the result text of a successful send lists these names in the
  same order.
\<close>

theorem C3_names_in_order:
  assumes "atts \<noteq> []" and "\<forall>a \<in> set atts. \<exists>c. readFileSync (filePath a) = Inr c"
  shows "\<exists>p as. sendEmail_payload env readFileSync to subject textBody htmlBody from' tag (Some atts) = Inr p
           \<and> email_data.Attachments p = Some as
           \<and> map encoded_attachment.Name as = map resolved_name atts
           \<and> (\<forall>res. sendEmail client p = Inr res \<longrightarrow>
                 sendEmail_handler env readFileSync client to subject textBody htmlBody from' tag (Some atts) =
                   ([p], Inr [TextContent (''Email sent successfully!\<newline>MessageID: '' @ MessageID res
                      @ ''\<newline>To: '' @ to @ ''\<newline>Subject: '' @ subject
                      @ ''\<newline>Attachments: '' @ join '', '' (map resolved_name atts))]))"
proof -
  from encode_attachments_readable [OF assms(2)] obtain as where
    as: "encode_attachments readFileSync atts = Inr as"
        "map encoded_attachment.Name as = map resolved_name atts" by blast
  then show ?thesis using assms(1)
    by (auto simp: sendEmail_payload_def sendEmail_handler_def attachInfo_def Let_def)
qed

theorem C3_witness:
  "example_attachments \<noteq> []
   \<and> example_files ''/tmp/r.csv'' = Inr ''a,b'' \<and> example_files ''/tmp/Chart.PNG'' = Inr ''png''
   \<and> map resolved_name example_attachments = [''r.csv'', ''chart.png'']
   \<and> sendEmail_payload example_env example_files ''a@example.com'' ''Hi'' ''Hello'' None None None
        (Some example_attachments) = Inr example_payload"
proof -
  have ne: "example_attachments \<noteq> []" by (simp add: example_attachments_def)
  have rd: "\<forall>a \<in> set example_attachments. \<exists>c. example_files (filePath a) = Inr c"
    by (simp add: example_attachments_def example_files_def)
  have names: "map resolved_name example_attachments = [''r.csv'', ''chart.png'']"
    by (simp add: example_attachments_def resolved_name_def basename_def)
  have pl: "sendEmail_payload example_env example_files ''a@example.com'' ''Hi'' ''Hello'' None None None
        (Some example_attachments) = Inr example_payload"
    using ne by (simp add: sendEmail_payload_def example_encoded Let_def example_env_def
        example_payload_def truthy_def js_or_def)
  from C3_names_in_order [OF ne rd, of example_env "''a@example.com''" "''Hi''" "''Hello''" None None None
      example_client] ne names pl
  show ?thesis by (simp add: example_files_def)
qed

text \<open>
  C5. The content type of an attachment is the entry of the fixed table for the
  lower-cased extension of its path (csv, txt, json, pdf, png, jpg, jpeg, gif, html, xml,
  zip, md); every other extension, and a path without extension, gives
  \<open>application/octet-stream\<close>. The resolution is total and never yields the empty string:
  whenever the file can be read, the attachment is encoded with that content type.
\<close>

theorem C5_content_type:
  "contentType_of ''.csv'' = ''text/csv'' \<and> contentType_of ''.txt'' = ''text/plain''
   \<and> contentType_of ''.json'' = ''application/json'' \<and> contentType_of ''.pdf'' = ''application/pdf''
   \<and> contentType_of ''.png'' = ''image/png'' \<and> contentType_of ''.jpg'' = ''image/jpeg''
   \<and> contentType_of ''.jpeg'' = ''image/jpeg'' \<and> contentType_of ''.gif'' = ''image/gif''
   \<and> contentType_of ''.html'' = ''text/html'' \<and> contentType_of ''.xml'' = ''application/xml''
   \<and> contentType_of ''.zip'' = ''application/zip'' \<and> contentType_of ''.md'' = ''text/markdown''
   \<and> (ext \<notin> {''.csv'', ''.txt'', ''.json'', ''.pdf'', ''.png'', ''.jpg'', ''.jpeg'', ''.gif'', ''.html'',
               ''.xml'', ''.zip'', ''.md''} \<longrightarrow> contentType_of ext = ''application/octet-stream'')
   \<and> contentType_of ext \<noteq> []
   \<and> (extname path = [] \<longrightarrow> contentType_of (toLowerCase (extname path)) = ''application/octet-stream'')
   \<and> (readFileSync (filePath att) = Inr content \<longrightarrow>
        (\<exists>a. encode_attachment readFileSync att = Inr a
            \<and> encoded_attachment.ContentType a = contentType_of (toLowerCase (extname (filePath att)))))"
  by (simp add: contentType_of_def or_default_def MIME_TYPES_def toLowerCase_def encode_attachment_Inr)

theorem C5_witness:
  "''.exe'' \<notin> {''.csv'', ''.txt'', ''.json'', ''.pdf'', ''.png'', ''.jpg'', ''.jpeg'', ''.gif'', ''.html'',
               ''.xml'', ''.zip'', ''.md''}
   \<and> contentType_of ''.exe'' = ''application/octet-stream''
   \<and> extname ''/tmp/Makefile'' = []
   \<and> contentType_of (toLowerCase (extname ''/tmp/Makefile'')) = ''application/octet-stream''
   \<and> example_files (filePath \<lparr> filePath = ''/tmp/Chart.PNG'', fileName = None \<rparr>) = Inr ''png''
   \<and> encode_attachment example_files \<lparr> filePath = ''/tmp/Chart.PNG'', fileName = None \<rparr> =
        Inr \<lparr> encoded_attachment.Name = ''Chart.PNG'', Content = ''cG5n'', ContentType = ''image/png'' \<rparr>"
proof -
  have ext: "extname ''/tmp/Makefile'' = []" by (simp add: extname_def basename_def)
  have rd: "example_files (filePath \<lparr> filePath = ''/tmp/Chart.PNG'', fileName = None \<rparr>) = Inr ''png''"
    by (simp add: example_files_def)
  have enc: "encode_attachment example_files \<lparr> filePath = ''/tmp/Chart.PNG'', fileName = None \<rparr> =
        Inr \<lparr> encoded_attachment.Name = ''Chart.PNG'', Content = ''cG5n'', ContentType = ''image/png'' \<rparr>"
    by (simp add: encode_attachment_def example_files_def string_defs contentType_of_def MIME_TYPES_def
          Let_def b64_char_def b64_alphabet_def)
  from C5_content_type [of "''.exe''" "''/tmp/Makefile''" example_files
      "\<lparr> filePath = ''/tmp/Chart.PNG'', fileName = None \<rparr>" "''png''"] ext rd enc
  show ?thesis by simp
qed

section \<open>The template list\<close>

text \<open>
  C2. The claim: each block of the \<open>listTemplates\<close> text is the bullet U+2022, the plain
  template name, and the ID, Alias and Subject lines. For an account with the single
  template \<open>Basic\<close> the handler returns a block that opens with the seven bytes the
  source file stores for the bullet and puts the name between \<open>**\<close> markers, so its
  text is not the text of the claim.
\<close>

theorem C2_block_as_written:
  "listTemplates_handler one_template_client =
     Inr [TextContent (''Found 1 templates:\<newline>\<newline>''
            @ [CHR 0xC3, CHR 0xA2, CHR 0xE2, CHR 0x82, CHR 0xAC, CHR 0xC2, CHR 0xA2]
            @ '' **Basic**\<newline>  - ID: 7\<newline>  - Alias: basic\<newline>  - Subject: none'')]
   \<and> claimed_templates_text
         [\<lparr> template.Name = ''Basic'', TemplateId = 7, Alias = Some ''basic'', Subject = None \<rparr>] =
       ''Found 1 templates:\<newline>\<newline>'' @ [CHR 0xE2, CHR 0x80, CHR 0xA2]
         @ '' Basic\<newline>  - ID: 7\<newline>  - Alias: basic\<newline>  - Subject: none''
   \<and> listTemplates_handler one_template_client \<noteq>
       Inr [TextContent (claimed_templates_text
              [\<lparr> template.Name = ''Basic'', TemplateId = 7, Alias = Some ''basic'', Subject = None \<rparr>])]"
  by (simp add: listTemplates_handler_def one_template_client_def claimed_templates_text_def
        template_block_def claimed_template_block_def bullet_def claimed_bullet_def or_default_def
        Let_def show_nat.simps digit_char_def)

section \<open>Error messages and the credential\<close>

lemma stats_request_token:
  "headers (stats_request env tag fromDate toDate) =
     [(''Accept'', Some ''application/json''), (''X-Postmark-Server-Token'', serverToken env)]"
  by (simp add: stats_request_def Let_def)

lemma stats_error_message:
  "fetch (stats_request env tag fromDate toDate) = Inr response \<Longrightarrow> \<not> ok response \<Longrightarrow>
   snd (getDeliveryStats_handler env fetch tag fromDate toDate) =
     Inl (new_Error (''API request failed: '' @ show_nat (status response) @ '' '' @ statusText response))"
  by (simp add: getDeliveryStats_handler_def Let_def)

lemma initializeServices_Throws:
  "initializeServices env ServerClient = Throws e \<Longrightarrow>
   \<exists>token error. serverToken env = Some token \<and> getServer (ServerClient token) = Inl error
     \<and> e = new_Error (if truthy_code (err_code error) \<or> err_message error \<noteq> []
            then ''Initialization failed: ''
                 @ (if truthy_code (err_code error) then show_code (err_code error) @ '' - '' else [])
                 @ err_message error
            else ''Initialization failed: An unexpected error occurred'')"
  by (auto simp: initializeServices_def Let_def split: option.splits if_splits sum.splits)

lemma initializeServices_ProcessExit:
  "initializeServices env ServerClient = ProcessExit msg code \<Longrightarrow>
   code = 1 \<and> msg \<in> {''[ERROR] POSTMARK_SERVER_TOKEN is not set'',
                      ''[ERROR] DEFAULT_SENDER_EMAIL is not set'',
                      ''[ERROR] DEFAULT_MESSAGE_STREAM is not set''}"
  by (auto simp: initializeServices_def Let_def split: option.splits if_splits sum.splits)

text \<open>
  C8. No error message depends on the server token. Two runs that differ only in the token
  and meet the same provider answers end with the same outcome in \<open>sendEmail\<close> and
  \<open>sendEmailWithTemplate\<close> (error or result, and the same payloads), with the same
  result or error in \<open>getDeliveryStats\<close>, and, when initialization throws in both, with
  the same error. When initialization ends the process instead, the line it writes is
  one of three fixed texts. The token itself only travels in the request header
  (\<open>stats_request_token\<close>); the messages built here are made of the provider's status,
  status text, error code and error message (\<open>stats_error_message\<close>,
  \<open>initializeServices_Throws\<close>). \<open>listTemplates\<close> does not read the configuration.
\<close>

theorem C8_error_messages_ignore_token:
  "sendEmail_handler (env\<lparr> serverToken := tok \<rparr>) readFileSync client to subject textBody htmlBody from' tag attachments
     = sendEmail_handler env readFileSync client to subject textBody htmlBody from' tag attachments
   \<and> sendEmailWithTemplate_handler (env\<lparr> serverToken := tok \<rparr>) tclient tto templateId templateAlias templateModel tfrom ttag
     = sendEmailWithTemplate_handler env tclient tto templateId templateAlias templateModel tfrom ttag
   \<and> (fetch (stats_request (env\<lparr> serverToken := tok \<rparr>) stag fromDate toDate)
         = fetch (stats_request env stag fromDate toDate) \<longrightarrow>
       snd (getDeliveryStats_handler (env\<lparr> serverToken := tok \<rparr>) fetch stag fromDate toDate)
         = snd (getDeliveryStats_handler env fetch stag fromDate toDate))
   \<and> (getServer (ServerClient t1) = getServer (ServerClient t2)
        \<and> initializeServices (env\<lparr> serverToken := Some t1 \<rparr>) ServerClient = Throws e1
        \<and> initializeServices (env\<lparr> serverToken := Some t2 \<rparr>) ServerClient = Throws e2
        \<longrightarrow> e1 = e2)
   \<and> (initializeServices env0 ServerClient = ProcessExit msg code
        \<longrightarrow> code = 1 \<and> msg \<in> {''[ERROR] POSTMARK_SERVER_TOKEN is not set'',
                                ''[ERROR] DEFAULT_SENDER_EMAIL is not set'',
                                ''[ERROR] DEFAULT_MESSAGE_STREAM is not set''})"
proof (intro conjI impI)
  show "sendEmail_handler (env\<lparr> serverToken := tok \<rparr>) readFileSync client to subject textBody htmlBody from' tag attachments
     = sendEmail_handler env readFileSync client to subject textBody htmlBody from' tag attachments"
    by (simp add: sendEmail_handler_def sendEmail_payload_def)
  show "sendEmailWithTemplate_handler (env\<lparr> serverToken := tok \<rparr>) tclient tto templateId templateAlias templateModel tfrom ttag
     = sendEmailWithTemplate_handler env tclient tto templateId templateAlias templateModel tfrom ttag"
    by (simp add: sendEmailWithTemplate_handler_def)
next
  assume "fetch (stats_request (env\<lparr> serverToken := tok \<rparr>) stag fromDate toDate)
         = fetch (stats_request env stag fromDate toDate)"
  then show "snd (getDeliveryStats_handler (env\<lparr> serverToken := tok \<rparr>) fetch stag fromDate toDate)
         = snd (getDeliveryStats_handler env fetch stag fromDate toDate)"
    by (simp add: getDeliveryStats_handler_def Let_def split: sum.splits)
next
  assume h: "getServer (ServerClient t1) = getServer (ServerClient t2)
        \<and> initializeServices (env\<lparr> serverToken := Some t1 \<rparr>) ServerClient = Throws e1
        \<and> initializeServices (env\<lparr> serverToken := Some t2 \<rparr>) ServerClient = Throws e2"
  from h initializeServices_Throws [of "env\<lparr> serverToken := Some t1 \<rparr>" ServerClient e1]
       initializeServices_Throws [of "env\<lparr> serverToken := Some t2 \<rparr>" ServerClient e2]
  show "e1 = e2" by auto
next
  assume "initializeServices env0 ServerClient = ProcessExit msg code"
  from initializeServices_ProcessExit [OF this]
  show "code = 1" "msg \<in> {''[ERROR] POSTMARK_SERVER_TOKEN is not set'',
                                ''[ERROR] DEFAULT_SENDER_EMAIL is not set'',
                                ''[ERROR] DEFAULT_MESSAGE_STREAM is not set''}" by simp_all
qed

theorem C8_witness:
  "unauthorized_fetch (stats_request (example_env\<lparr> serverToken := Some ''token-2'' \<rparr>) None None None)
     = unauthorized_fetch (stats_request example_env None None None)
   \<and> snd (getDeliveryStats_handler (example_env\<lparr> serverToken := Some ''token-2'' \<rparr>) unauthorized_fetch None None None)
     = Inl (new_Error ''API request failed: 401 Unauthorized'')
   \<and> snd (getDeliveryStats_handler example_env unauthorized_fetch None None None)
     = Inl (new_Error ''API request failed: 401 Unauthorized'')
   \<and> getServer (failing_ServerClient ''token-1'') = getServer (failing_ServerClient ''token-2'')
   \<and> initializeServices (example_env\<lparr> serverToken := Some ''token-1'' \<rparr>) failing_ServerClient
     = Throws (new_Error ''Initialization failed: 10 - Request does not contain a valid Server token.'')
   \<and> initializeServices (example_env\<lparr> serverToken := Some ''token-2'' \<rparr>) failing_ServerClient
     = Throws (new_Error ''Initialization failed: 10 - Request does not contain a valid Server token.'')
   \<and> initializeServices (example_env\<lparr> serverToken := None \<rparr>) failing_ServerClient
     = ProcessExit ''[ERROR] POSTMARK_SERVER_TOKEN is not set'' 1"
proof -
  have x: "initializeServices (example_env\<lparr> serverToken := None \<rparr>) failing_ServerClient
     = ProcessExit ''[ERROR] POSTMARK_SERVER_TOKEN is not set'' 1"
    by (simp add: initializeServices_def)
  have f: "unauthorized_fetch (stats_request (example_env\<lparr> serverToken := Some ''token-2'' \<rparr>) None None None)
     = unauthorized_fetch (stats_request example_env None None None)"
    by (simp add: unauthorized_fetch_def)
  have s: "snd (getDeliveryStats_handler example_env unauthorized_fetch None None None)
     = Inl (new_Error ''API request failed: 401 Unauthorized'')"
    by (simp add: getDeliveryStats_handler_def unauthorized_fetch_def ok_def Let_def show_nat.simps digit_char_def)
  have g: "getServer (failing_ServerClient ''token-1'') = getServer (failing_ServerClient ''token-2'')"
    by (simp add: failing_ServerClient_def)
  have i1: "initializeServices (example_env\<lparr> serverToken := Some ''token-1'' \<rparr>) failing_ServerClient
     = Throws (new_Error ''Initialization failed: 10 - Request does not contain a valid Server token.'')"
    by (simp add: initializeServices_def example_env_def failing_ServerClient_def failing_client_def
          truthy_def truthy_code_def show_code_def show_int_def show_nat.simps digit_char_def Let_def)
  have i2: "initializeServices (example_env\<lparr> serverToken := Some ''token-2'' \<rparr>) failing_ServerClient
     = Throws (new_Error ''Initialization failed: 10 - Request does not contain a valid Server token.'')"
    by (simp add: initializeServices_def example_env_def failing_ServerClient_def failing_client_def
          truthy_def truthy_code_def show_code_def show_int_def show_nat.simps digit_char_def Let_def)
  from C8_error_messages_ignore_token [where env = example_env and tok = "Some ''token-2''"
      and readFileSync = example_files and client = example_client and to = "''a@example.com''"
      and subject = "''Hi''" and textBody = "''Hello''" and htmlBody = None and from' = None
      and tag = None and attachments = None and tclient = example_client
      and tto = "''a@example.com''" and templateId = None and templateAlias = None
      and templateModel = "()" and tfrom = None and ttag = None
      and fetch = unauthorized_fetch and stag = None and fromDate = None and toDate = None
      and ServerClient = failing_ServerClient and ?t1.0 = "''token-1''" and ?t2.0 = "''token-2''"
      and ?e1.0 = "new_Error ''Initialization failed: 10 - Request does not contain a valid Server token.''"
      and ?e2.0 = "new_Error ''Initialization failed: 10 - Request does not contain a valid Server token.''"
      and ?env0.0 = "example_env\<lparr> serverToken := None \<rparr>"
      and msg = "''[ERROR] POSTMARK_SERVER_TOKEN is not set''" and code = 1]
    f s g i1 i2 x
  show ?thesis by simp
qed


section \<open>Double arithmetic\<close>

lemma round_half_even_error: "\<bar>of_int (round_half_even x) - x\<bar> \<le> 1 / 2"
proof -
  define f where "f = \<lfloor>x\<rfloor>"
  have f: "of_int f \<le> x" "x < of_int f + 1" unfolding f_def by linarith+
  consider "x - of_int f < 1 / 2" | "1 / 2 < x - of_int f" | "x - of_int f = 1 / 2" by linarith
  then show ?thesis
  proof cases
    case 1
    then have "round_half_even x = f" by (simp add: round_half_even_def f_def Let_def)
    with 1 f show ?thesis by simp
  next
    case 2
    then have "round_half_even x = f + 1" by (simp add: round_half_even_def f_def Let_def)
    with 2 f show ?thesis by simp
  next
    case 3
    then have "round_half_even x = f \<or> round_half_even x = f + 1"
      by (simp add: round_half_even_def f_def Let_def)
    with 3 show ?thesis by auto
  qed
qed

lemma binary64_pos_significand:
  assumes "0 < x"
  obtains e where "binary64_pos x = of_int (round_half_even (x / 2 powi e)) * 2 powi e"
    and "2 ^ 52 \<le> x / 2 powi e" and "x / 2 powi e < 2 ^ 53"
proof -
  obtain a b where ab: "quotient_of x = (a, b)" by fastforce
  have b: "0 < b" using quotient_of_denom_pos [OF ab] .
  have x: "x = of_int a / of_int b" using quotient_of_div [OF ab] .
  have a: "0 < a" using assms b unfolding x by (simp add: zero_less_divide_iff)
  define e0 where "e0 = bitlen a - bitlen b - 53"
  have ka: "1 \<le> bitlen a" using a bitlen_eq_zero_iff [of a] bitlen_nonneg [of a] by linarith
  have kb: "1 \<le> bitlen b" using b bitlen_eq_zero_iff [of b] bitlen_nonneg [of b] by linarith
  have apos: "(0::rat) < of_int a" and bpos: "(0::rat) < of_int b" using a b by simp_all
  have "(2::int) ^ nat (bitlen a - 1) \<le> a" "a < (2::int) ^ nat (bitlen a)"
    using bitlen_bounds [OF a] by simp_all
  then have "(of_int ((2::int) ^ nat (bitlen a - 1)) :: rat) \<le> of_int a"
    "(of_int a :: rat) < of_int ((2::int) ^ nat (bitlen a))"
    by (simp_all only: of_int_le_iff of_int_less_iff)
  then have la: "(2::rat) powi (bitlen a - 1) \<le> of_int a" and ua: "(of_int a :: rat) < 2 powi (bitlen a)"
    using ka by (simp_all add: power_int_def)
  have "(2::int) ^ nat (bitlen b - 1) \<le> b" "b < (2::int) ^ nat (bitlen b)"
    using bitlen_bounds [OF b] by simp_all
  then have "(of_int ((2::int) ^ nat (bitlen b - 1)) :: rat) \<le> of_int b"
    "(of_int b :: rat) < of_int ((2::int) ^ nat (bitlen b))"
    by (simp_all only: of_int_le_iff of_int_less_iff)
  then have lb: "(2::rat) powi (bitlen b - 1) \<le> of_int b" and ub: "(of_int b :: rat) < 2 powi (bitlen b)"
    using kb by (simp_all add: power_int_def)
  have "(2::rat) powi (bitlen a - 1) / 2 powi (bitlen b) < of_int a / of_int b"
    using la ub bpos by (intro frac_less2) auto
  moreover have "(2::rat) powi (bitlen a - 1) / 2 powi (bitlen b) = 2 powi (e0 + 52)"
  proof -
    have eq: "bitlen a - 1 - bitlen b = e0 + 52" by (simp add: e0_def)
    have "(2::rat) powi (bitlen a - 1) / 2 powi (bitlen b) = 2 powi (bitlen a - 1 - bitlen b)"
      by (rule power_int_diff [symmetric]) simp
    then show ?thesis by (simp only: eq)
  qed
  ultimately have "(2::rat) powi (e0 + 52) < x" unfolding x by simp
  then have "(2::rat) ^ 52 * 2 powi e0 < x"
    by (simp add: power_int_add mult.commute)
  then have low: "(2::rat) ^ 52 < x / 2 powi e0"
    by (simp add: pos_less_divide_eq)
  have "of_int a / of_int b < (2::rat) powi (bitlen a) / 2 powi (bitlen b - 1)"
    using ua lb apos by (intro frac_less) auto
  moreover have "(2::rat) powi (bitlen a) / 2 powi (bitlen b - 1) = 2 powi (e0 + 54)"
  proof -
    have eq: "bitlen a - (bitlen b - 1) = e0 + 54" by (simp add: e0_def)
    have "(2::rat) powi (bitlen a) / 2 powi (bitlen b - 1) = 2 powi (bitlen a - (bitlen b - 1))"
      by (rule power_int_diff [symmetric]) simp
    then show ?thesis by (simp only: eq)
  qed
  ultimately have "x < (2::rat) powi (e0 + 54)" unfolding x by simp
  then have "x < (2::rat) ^ 54 * 2 powi e0"
    by (simp add: power_int_add mult.commute)
  then have high: "x / 2 powi e0 < (2::rat) ^ 54"
    by (simp add: pos_divide_less_eq)
  define e where "e = (if 2 ^ 53 \<le> x / 2 powi e0 then e0 + 1 else e0)"
  have "(2::rat) ^ 52 \<le> x / 2 powi e \<and> x / 2 powi e < 2 ^ 53"
  proof (cases "2 ^ 53 \<le> x / 2 powi e0")
    case True
    then have e: "e = e0 + 1" by (simp add: e_def)
    have "(2::rat) powi e = 2 powi e0 * 2" unfolding e by (simp add: power_int_add)
    then have eq: "x / 2 powi e = x / 2 powi e0 / 2" by (simp only: divide_divide_eq_left)
    define z where "z = x / 2 powi e0"
    from True high have "2 ^ 53 \<le> z" "z < 2 ^ 54" by (simp_all only: z_def)
    then have "2 ^ 52 \<le> z / 2 \<and> z / 2 < 2 ^ 53" by simp
    then show ?thesis by (simp only: eq z_def)
  next
    case False
    then show ?thesis using low by (simp add: e_def)
  qed
  moreover have "binary64_pos x = of_int (round_half_even (x / 2 powi e)) * 2 powi e"
    by (simp add: binary64_pos_def ab e_def e0_def Let_def)
  ultimately show ?thesis using that by blast
qed

lemma binary64_pos_error:
  assumes "0 < x"
  shows "\<bar>binary64_pos x - x\<bar> \<le> x / 2 ^ 53"
proof -
  from binary64_pos_significand [OF assms] obtain e where
    eq: "binary64_pos x = of_int (round_half_even (x / 2 powi e)) * 2 powi e"
    and low: "2 ^ 52 \<le> x / 2 powi e" by blast
  have p: "(0::rat) < 2 powi e" by simp
  have "binary64_pos x - x = (of_int (round_half_even (x / 2 powi e)) - x / 2 powi e) * 2 powi e"
    using p by (simp add: eq field_simps)
  then have "\<bar>binary64_pos x - x\<bar> = \<bar>of_int (round_half_even (x / 2 powi e)) - x / 2 powi e\<bar> * 2 powi e"
    using p by (simp add: abs_mult)
  also have "\<dots> \<le> 1 / 2 * 2 powi e"
    using round_half_even_error [of "x / 2 powi e"] p by (intro mult_right_mono) auto
  also have "\<dots> \<le> 1 / 2 * (x / 2 ^ 52)"
  proof -
    from low p have "2 ^ 52 * 2 powi e \<le> x" by (simp add: pos_le_divide_eq)
    then have "2 powi e \<le> x / 2 ^ 52" by (simp add: pos_le_divide_eq mult.commute)
    then show ?thesis by simp
  qed
  finally show ?thesis by simp
qed

lemma binary64_error:
  assumes "0 \<le> x"
  shows "\<bar>binary64 x - x\<bar> \<le> x / 2 ^ 53"
proof (cases "x = 0")
  case True
  then show ?thesis by (simp add: binary64_def)
next
  case False
  with assms have "0 < x" by simp
  then show ?thesis using binary64_pos_error [of x] by (simp add: binary64_def)
qed

lemma round_half_even_of_int: "round_half_even (of_int n) = n"
  by (simp add: round_half_even_def)

lemma binary64_exact:
  fixes n :: nat
  assumes "n < 2 ^ 53"
  shows "binary64 (of_nat n) = of_nat n"
proof (cases "n = 0")
  case True
  then show ?thesis by (simp add: binary64_def)
next
  case False
  then have pos: "(0::rat) < of_nat n" by simp
  from binary64_pos_significand [OF pos] obtain e where
    eq: "binary64_pos (of_nat n) = of_int (round_half_even (of_nat n / 2 powi e)) * 2 powi e"
    and low: "2 ^ 52 \<le> (of_nat n :: rat) / 2 powi e" by blast
  have nb: "(of_nat n :: rat) < 2 ^ 53"
    using assms by (metis of_nat_less_iff of_nat_numeral of_nat_power)
  have p: "(0::rat) < 2 powi e" by simp
  have "e \<le> 0"
  proof (rule ccontr)
    assume "\<not> e \<le> 0"
    then have "1 \<le> e" by simp
    then have "(2::rat) powi 1 \<le> 2 powi e" by (intro power_int_increasing) auto
    then have "(2::rat) \<le> 2 powi e" by simp
    moreover from low p have "2 ^ 52 * 2 powi e \<le> (of_nat n :: rat)" by (simp add: pos_le_divide_eq)
    ultimately show False using nb by simp
  qed
  then obtain m :: nat where m: "e = - int m" by (metis nat_0_le neg_le_0_iff_le minus_minus)
  have "(of_nat n :: rat) / 2 powi e = of_int (int n * 2 ^ m)"
    by (simp add: m power_int_minus field_simps)
  then have "round_half_even (of_nat n / 2 powi e) = int n * 2 ^ m"
    by (simp only: round_half_even_of_int)
  then have "binary64_pos (of_nat n) = of_nat n"
    by (simp add: eq m power_int_minus field_simps)
  then show ?thesis using pos by (simp add: binary64_def)
qed

lemma round_half_even_cases:
  fixes z :: rat
  defines "f \<equiv> \<lfloor>z\<rfloor>"
  obtains "z - of_int f < 1 / 2" "round_half_even z = f"
  | "1 / 2 < z - of_int f" "round_half_even z = f + 1"
  | "z - of_int f = 1 / 2" "round_half_even z = f \<or> round_half_even z = f + 1" "even (round_half_even z)"
proof -
  consider "z - of_int f < 1 / 2" | "1 / 2 < z - of_int f" | "z - of_int f = 1 / 2" by linarith
  then show ?thesis
  proof cases
    case 1
    then have "round_half_even z = f" by (simp add: round_half_even_def f_def Let_def)
    with 1 that(1) show ?thesis by blast
  next
    case 2
    then have "round_half_even z = f + 1" by (simp add: round_half_even_def f_def Let_def)
    with 2 that(2) show ?thesis by blast
  next
    case 3
    then have "round_half_even z = (if even f then f else f + 1)"
      by (simp add: round_half_even_def f_def Let_def)
    then have "round_half_even z = f \<or> round_half_even z = f + 1" "even (round_half_even z)"
      by auto
    with 3 that(3) show ?thesis by blast
  qed
qed

lemma int_floor_split:
  fixes z :: rat and j :: int
  shows "(of_int j :: rat) \<le> of_int \<lfloor>z\<rfloor> \<or> (of_int \<lfloor>z\<rfloor> :: rat) + 1 \<le> of_int j"
proof (cases "j \<le> \<lfloor>z\<rfloor>")
  case True
  then have "(of_int j :: rat) \<le> of_int \<lfloor>z\<rfloor>" by (simp only: of_int_le_iff)
  then show ?thesis by simp
next
  case False
  then have "\<lfloor>z\<rfloor> + 1 \<le> j" by simp
  then have "(of_int (\<lfloor>z\<rfloor> + 1) :: rat) \<le> of_int j" by (simp only: of_int_le_iff)
  then show ?thesis by simp
qed

lemma round_half_even_nearest:
  fixes z :: rat
  shows "\<bar>of_int (round_half_even z) - z\<bar> \<le> \<bar>of_int j - z\<bar>"
proof -
  define F :: rat where "F = of_int \<lfloor>z\<rfloor>"
  define J :: rat where "J = of_int j"
  define N :: rat where "N = of_int (round_half_even z)"
  have f: "F \<le> z" "z < F + 1" unfolding F_def by linarith+
  have j: "J \<le> F \<or> F + 1 \<le> J" unfolding J_def F_def by (rule int_floor_split)
  have "\<bar>N - z\<bar> \<le> \<bar>J - z\<bar>"
  proof (cases z rule: round_half_even_cases)
    case 1
    then have "N = F" "z - F < 1 / 2" by (simp_all add: N_def F_def)
    with f j show ?thesis by linarith
  next
    case 2
    then have "N = F + 1" "1 / 2 < z - F" by (simp_all add: N_def F_def)
    with f j show ?thesis by linarith
  next
    case 3
    then have "N = F \<or> N = F + 1" "z - F = 1 / 2" by (auto simp: N_def F_def)
    with f j show ?thesis by linarith
  qed
  then show ?thesis by (simp only: N_def J_def)
qed

lemma round_half_even_tie:
  fixes z :: rat
  assumes "j \<noteq> round_half_even z" and "\<bar>of_int j - z\<bar> = \<bar>of_int (round_half_even z) - z\<bar>"
  shows "even (round_half_even z)"
proof -
  define F :: rat where "F = of_int \<lfloor>z\<rfloor>"
  define J :: rat where "J = of_int j"
  define N :: rat where "N = of_int (round_half_even z)"
  have f: "F \<le> z" "z < F + 1" unfolding F_def by linarith+
  have j: "J \<le> F \<or> F + 1 \<le> J" unfolding J_def F_def by (rule int_floor_split)
  have neq: "J \<noteq> N" using assms(1) by (simp add: J_def N_def)
  have eq: "\<bar>J - z\<bar> = \<bar>N - z\<bar>" using assms(2) by (simp only: J_def N_def)
  show ?thesis
  proof (cases z rule: round_half_even_cases)
    case 1
    then have "N = F" "z - F < 1 / 2" by (simp_all add: N_def F_def)
    with f j neq eq have False by linarith
    then show ?thesis ..
  next
    case 2
    then have "N = F + 1" "1 / 2 < z - F" by (simp_all add: N_def F_def)
    with f j neq eq have False by linarith
    then show ?thesis ..
  next
    case 3
    then show ?thesis by simp
  qed
qed

lemma representable_scaled:
  assumes "representable r"
  shows "(\<exists>j::int. r = of_int j * 2 powi e) \<or> r < 2 ^ 52 * 2 powi e"
proof -
  have P: "(0::rat) < 2 powi e" by simp
  show ?thesis
  proof (cases "r \<le> 0")
    case True
    have "(0::rat) < 2 ^ 52 * 2 powi e" using P by simp
    with True show ?thesis by linarith
  next
    case False
    then have rpos: "0 < r" by simp
    with assms obtain m e' :: int where m: "2 ^ 52 \<le> m" "m < 2 ^ 53" and r: "r = of_int m * 2 powi e'"
      by (auto simp: representable_def)
    show ?thesis
    proof (cases "e \<le> e'")
      case True
      then obtain k :: nat where k: "e' = e + int k" by (metis zle_iff_zadd)
      have "(2::rat) powi e' = 2 ^ k * 2 powi e"
        unfolding k by (simp add: power_int_add mult.commute)
      then have "r = of_int (m * 2 ^ k) * 2 powi e" by (simp add: r)
      then show ?thesis by blast
    next
      case False
      then have "e' \<le> e - 1" by simp
      then have "(2::rat) powi e' \<le> 2 powi (e - 1)" by (intro power_int_increasing) auto
      also have "(2::rat) powi (e - 1) = 2 powi e / 2" by (simp add: power_int_diff)
      finally have le: "(2::rat) powi e' \<le> 2 powi e / 2" .
      have mb: "(of_int m :: rat) < 2 ^ 53" using m(2) by (metis of_int_less_iff of_int_numeral of_int_power)
      have m0: "(0::rat) \<le> of_int m" using m(1) by simp
      have "r \<le> of_int m * (2 powi e / 2)" unfolding r using le m0 by (intro mult_left_mono) auto
      also have "\<dots> < 2 ^ 53 * (2 powi e / 2)" using mb P by (intro mult_strict_right_mono) auto
      finally have "r < 2 ^ 52 * 2 powi e" by simp
      then show ?thesis ..
    qed
  qed
qed

lemma binary64_pos_nearest:
  assumes "0 < x"
  shows "nearest_double x (binary64_pos x)"
proof -
  from binary64_pos_significand [OF assms] obtain e where
    eq: "binary64_pos x = of_int (round_half_even (x / 2 powi e)) * 2 powi e"
    and low: "2 ^ 52 \<le> x / 2 powi e" and high: "x / 2 powi e < 2 ^ 53" by blast
  define P :: rat where "P = 2 powi e"
  define z where "z = x / P"
  define n where "n = round_half_even z"
  define r where "r = binary64_pos x"
  have P: "0 < P" by (simp add: P_def)
  have x: "x = z * P" using P by (simp add: z_def)
  have r: "r = of_int n * P" by (simp add: r_def eq n_def z_def P_def)
  have zl: "2 ^ 52 \<le> z" and zh: "z < 2 ^ 53" using low high by (simp_all add: z_def P_def)
  have dist: "\<bar>s * P - x\<bar> = \<bar>s - z\<bar> * P" for s
  proof -
    have "s * P - x = (s - z) * P" by (simp add: x algebra_simps)
    then show ?thesis using P by (simp add: abs_mult)
  qed
  have nl: "2 ^ 52 \<le> n" and nh: "n \<le> 2 ^ 53"
  proof -
    have "\<bar>of_int n - z\<bar> \<le> \<bar>of_int (2 ^ 52) - z\<bar>" unfolding n_def by (rule round_half_even_nearest)
    then have "(2 ^ 52 :: rat) \<le> of_int n" using zl by simp
    then show "2 ^ 52 \<le> n" by (metis of_int_le_iff of_int_numeral of_int_power)
    have "\<bar>of_int n - z\<bar> \<le> \<bar>of_int (2 ^ 53) - z\<bar>" unfolding n_def by (rule round_half_even_nearest)
    then have "of_int n \<le> (2 ^ 53 :: rat)" using zh by simp
    then show "n \<le> 2 ^ 53" by (metis of_int_le_iff of_int_numeral of_int_power)
  qed
  have rpos: "0 < r"
  proof -
    have "(0::rat) < of_int n" using nl by simp
    then show ?thesis unfolding r using P by simp
  qed
  have sig: "\<exists>(m::int) e'. 2 ^ 52 \<le> m \<and> m < 2 ^ 53 \<and> (even n \<longrightarrow> even m) \<and> \<bar>r\<bar> = of_int m * 2 powi e'"
  proof (cases "n < 2 ^ 53")
    case True
    have "\<bar>r\<bar> = of_int n * 2 powi e" using rpos r by (simp add: P_def)
    with nl True show ?thesis by blast
  next
    case False
    with nh have n: "n = 2 ^ 53" by simp
    have p1: "(2::rat) powi (e + 1) = 2 powi e * 2" by (simp add: power_int_add)
    have "(of_int n :: rat) = 2 ^ 52 * 2" unfolding n by simp
    then have "r = 2 ^ 52 * (2 powi e * 2)" unfolding r P_def by simp
    then have "r = of_int (2 ^ 52) * 2 powi (e + 1)" unfolding p1 by simp
    then have a: "\<bar>r\<bar> = of_int (2 ^ 52) * 2 powi (e + 1)" using rpos by simp
    have "(2::int) ^ 52 \<le> 2 ^ 52 \<and> (2::int) ^ 52 < 2 ^ 53 \<and> even ((2::int) ^ 52)" by simp
    with a show ?thesis by blast
  qed
  have rep: "representable r" using sig by (auto simp: representable_def)
  have far: "\<bar>r - x\<bar> < \<bar>r' - x\<bar>" if "r' < 2 ^ 52 * P" for r'
  proof -
    have "\<bar>of_int n - z\<bar> \<le> \<bar>of_int (2 ^ 52) - z\<bar>" unfolding n_def by (rule round_half_even_nearest)
    then have "\<bar>of_int n - z\<bar> \<le> z - 2 ^ 52" using zl by simp
    then have "\<bar>of_int n - z\<bar> * P \<le> (z - 2 ^ 52) * P" using P by (intro mult_right_mono) auto
    then have "\<bar>r - x\<bar> \<le> x - 2 ^ 52 * P" unfolding r dist by (simp add: x algebra_simps)
    with that show ?thesis by linarith
  qed
  have min: "\<bar>r - x\<bar> \<le> \<bar>r' - x\<bar>" if "representable r'" for r'
  proof -
    from representable_scaled [OF that, of e] consider j :: int where "r' = of_int j * P" | "r' < 2 ^ 52 * P"
      unfolding P_def by blast
    then show ?thesis
    proof cases
      case 1
      have "\<bar>of_int n - z\<bar> \<le> \<bar>of_int j - z\<bar>" unfolding n_def by (rule round_half_even_nearest)
      then have "\<bar>of_int n - z\<bar> * P \<le> \<bar>of_int j - z\<bar> * P" using P by (intro mult_right_mono) auto
      then show ?thesis unfolding r 1 dist .
    next
      case 2
      from far [OF 2] show ?thesis by simp
    qed
  qed
  have tie: "even_significand r" if "representable r'" "r' \<noteq> r" "\<bar>r' - x\<bar> = \<bar>r - x\<bar>" for r'
  proof -
    from representable_scaled [OF that(1), of e] consider j :: int where "r' = of_int j * P" | "r' < 2 ^ 52 * P"
      unfolding P_def by blast
    then show ?thesis
    proof cases
      case 1
      from that(3) have "\<bar>of_int j - z\<bar> * P = \<bar>of_int n - z\<bar> * P" unfolding r 1 dist .
      then have "\<bar>of_int j - z\<bar> = \<bar>of_int n - z\<bar>" using P by simp
      moreover have "j \<noteq> n" using that(2) unfolding r 1 by auto
      ultimately have "even n" unfolding n_def by (intro round_half_even_tie [of j]) auto
      with sig show ?thesis by (auto simp: even_significand_def)
    next
      case 2
      from far [OF 2] that(3) show ?thesis by simp
    qed
  qed
  show ?thesis
    unfolding nearest_double_def r_def [symmetric] using rep min tie by blast
qed

lemma binary64_nearest:
  assumes "0 \<le> x"
  shows "nearest_double x (binary64 x)"
proof (cases "x = 0")
  case True
  then show ?thesis by (auto simp: binary64_def nearest_double_def representable_def)
next
  case False
  with assms have "0 < x" by simp
  then show ?thesis using binary64_pos_nearest [of x] by (simp add: binary64_def)
qed

lemma representable_minus: "representable (- r) = representable r"
  by (simp add: representable_def)

lemma even_significand_minus: "even_significand (- r) = even_significand r"
  by (simp add: even_significand_def)

lemma significand_unique:
  fixes m m' e e' :: int
  assumes m: "2 ^ 52 \<le> m" "m < 2 ^ 53" and m': "2 ^ 52 \<le> m'" "m' < 2 ^ 53"
    and eq: "(of_int m :: rat) * 2 powi e = of_int m' * 2 powi e'"
  shows "m = m'"
proof -
  have M: "(2 ^ 52 :: rat) \<le> of_int m" "(of_int m :: rat) < 2 ^ 53"
    using m by (metis of_int_le_iff of_int_numeral of_int_power, metis of_int_less_iff of_int_numeral of_int_power)
  have M': "(2 ^ 52 :: rat) \<le> of_int m'" "(of_int m' :: rat) < 2 ^ 53"
    using m' by (metis of_int_le_iff of_int_numeral of_int_power, metis of_int_less_iff of_int_numeral of_int_power)
  have step: False
    if lt: "a + 1 \<le> b" and A: "(2 ^ 52 :: rat) \<le> B" "A < (2 ^ 53 :: rat)" and E: "A * 2 powi a = B * 2 powi b"
    for a b :: int and A B :: rat
  proof -
    have pa: "(0::rat) < 2 powi a" by simp
    have "(2::rat) powi (a + 1) \<le> 2 powi b" using lt by (intro power_int_increasing) auto
    moreover have "(2::rat) powi (a + 1) = 2 powi a * 2" by (rule power_int_add_1) simp
    ultimately have le: "2 powi a * 2 \<le> (2::rat) powi b" by simp
    have "A * 2 powi a < 2 ^ 53 * 2 powi a" using A(2) pa by (intro mult_strict_right_mono) auto
    also have "\<dots> = 2 ^ 52 * (2 powi a * 2)" by simp
    also have "\<dots> \<le> 2 ^ 52 * 2 powi b" using le by (intro mult_left_mono) auto
    also have "\<dots> \<le> B * 2 powi b" using A(1) by (intro mult_right_mono) auto
    finally show False using E by simp
  qed
  have "e = e'"
  proof (rule ccontr)
    assume "e \<noteq> e'"
    then consider "e + 1 \<le> e'" | "e' + 1 \<le> e" by linarith
    then show False
    proof cases
      case 1
      from step [OF 1 M'(1) M(2) eq] show False .
    next
      case 2
      from step [OF 2 M(1) M'(2) eq [symmetric]] show False .
    qed
  qed
  with eq have "(of_int m :: rat) = of_int m'" by simp
  then show ?thesis by (simp only: of_int_eq_iff)
qed

lemma nearest_tie_positive:
  fixes x r r' :: rat
  assumes pos: "0 < r" and lt: "r < r'" and rep': "representable r'"
    and dist: "\<bar>r - x\<bar> = \<bar>r' - x\<bar>"
    and min: "\<And>s. representable s \<Longrightarrow> \<bar>r - x\<bar> \<le> \<bar>s - x\<bar>"
    and ev: "even_significand r" and ev': "even_significand r'"
  shows False
proof -
  from ev pos obtain m e :: int where m: "2 ^ 52 \<le> m" "m < 2 ^ 53" "even m" and r: "r = of_int m * 2 powi e"
    by (auto simp: even_significand_def)
  define P :: rat where "P = 2 powi e"
  have P: "0 < P" by (simp add: P_def)
  have r: "r = of_int m * P" by (simp add: r P_def)
  have mid: "r < x" "x < r'" using dist lt by linarith+
  have odd: "odd (m + 1)" using m(3) by simp
  have "m \<noteq> 2 ^ 53 - 1" using m(3) by auto
  with m(2) have m1: "2 ^ 52 \<le> m + 1" "m + 1 < 2 ^ 53" using m(1) by simp_all
  define s where "s = of_int (m + 1) * P"
  have s: "s = r + P" by (simp add: s_def r algebra_simps)
  have spos: "0 < s" using pos P s by simp
  have "\<bar>s\<bar> = of_int (m + 1) * 2 powi e" using spos by (simp add: s_def P_def)
  with m1 have reps: "representable s" unfolding representable_def by blast
  have M: "(2 ^ 52 :: rat) \<le> of_int m" using m(1) by (metis of_int_le_iff of_int_numeral of_int_power)
  have "2 ^ 52 * P \<le> r" unfolding r using M P by (intro mult_right_mono) auto
  with lt have "\<not> r' < 2 ^ 52 * P" by simp
  with representable_scaled [OF rep', of e] obtain j :: int where j: "r' = of_int j * P"
    unfolding P_def by blast
  have "of_int m * P < of_int j * P" using lt unfolding r j .
  then have "(of_int m :: rat) < of_int j" using P by simp
  then have "m < j" by (simp only: of_int_less_iff)
  show False
  proof (cases "j = m + 1")
    case True
    then have r's: "r' = s" by (simp add: j s_def)
    from ev' obtain m' e' :: int where m': "2 ^ 52 \<le> m'" "m' < 2 ^ 53" "even m'"
      and "\<bar>r'\<bar> = of_int m' * 2 powi e'" by (auto simp: even_significand_def)
    then have "of_int (m + 1) * 2 powi e = (of_int m' :: rat) * 2 powi e'"
      using spos by (simp add: r's s_def P_def)
    from significand_unique [OF m1 m'(1,2) this] odd m'(3) show False by simp
  next
    case False
    with \<open>m < j\<close> have "m + 2 \<le> j" by simp
    then have "(of_int (m + 2) :: rat) \<le> of_int j" by (simp only: of_int_le_iff)
    then have "of_int (m + 2) * P \<le> of_int j * P" using P by (intro mult_right_mono) auto
    then have "r + 2 * P \<le> r'" by (simp add: r j algebra_simps)
    then have "s < r'" using s P by linarith
    moreover have "r < s" using s P by simp
    ultimately have "\<bar>s - x\<bar> < \<bar>r - x\<bar>" using dist mid by linarith
    with min [OF reps] show False by simp
  qed
qed

lemma nearest_double_unique:
  assumes a: "nearest_double x r" and b: "nearest_double x r'"
  shows "r = r'"
proof (rule ccontr)
  assume ne: "r \<noteq> r'"
  have rep: "representable r" "representable r'" using a b by (simp_all add: nearest_double_def)
  have min: "\<bar>r - x\<bar> \<le> \<bar>s - x\<bar>" and min': "\<bar>r' - x\<bar> \<le> \<bar>s - x\<bar>" if "representable s" for s
    using a b that by (simp_all add: nearest_double_def)
  have dist: "\<bar>r - x\<bar> = \<bar>r' - x\<bar>" using min [OF rep(2)] min' [OF rep(1)] by simp
  have ev: "even_significand r" using a rep(2) ne dist by (auto simp: nearest_double_def)
  have ev': "even_significand r'" using b rep(1) ne dist by (auto simp: nearest_double_def)
  have general: False
    if lt: "u < v" and ru: "representable u" and rv: "representable v" and d: "\<bar>u - x\<bar> = \<bar>v - x\<bar>"
      and mu: "\<And>s. representable s \<Longrightarrow> \<bar>u - x\<bar> \<le> \<bar>s - x\<bar>"
      and eu: "even_significand u" and ev: "even_significand v"
    for u v :: rat
  proof -
    have u0: "u \<noteq> 0" and v0: "v \<noteq> 0" using eu ev by (auto simp: even_significand_def)
    consider "0 < u" | "v < 0" | "u < 0" "0 < v" using lt u0 v0 by linarith
    then show False
    proof cases
      case 1
      from nearest_tie_positive [OF 1 lt rv d mu eu ev] show False .
    next
      case 2
      have A: "\<bar>- v - (- x)\<bar> \<le> \<bar>s - (- x)\<bar>" if "representable s" for s
      proof -
        from that have "representable (- s)" by (simp add: representable_minus)
        from mu [OF this] d show ?thesis by linarith
      qed
      have B: "0 < - v" and C: "- v < - u" using 2 lt by simp_all
      have D: "representable (- u)" using ru by (simp add: representable_minus)
      have E: "\<bar>- v - (- x)\<bar> = \<bar>- u - (- x)\<bar>" using d by linarith
      have F: "even_significand (- v)" and G: "even_significand (- u)"
        using eu ev by (simp_all add: even_significand_minus)
      from nearest_tie_positive [of "- v" "- u" "- x", OF B C D E A F G] show False .
    next
      case 3
      from ev 3(2) obtain m e :: int where m: "2 ^ 52 \<le> m" "m < 2 ^ 53" and v: "v = of_int m * 2 powi e"
        by (auto simp: even_significand_def)
      have "(2::rat) powi (e - 1) = 2 powi e / 2" by (simp add: power_int_diff)
      then have "v / 2 = of_int m * 2 powi (e - 1)" by (simp add: v)
      moreover have "0 < v / 2" using 3(2) by simp
      ultimately have "representable (v / 2)" using m by (auto simp: representable_def)
      from mu [OF this] d 3 lt show False by linarith
    qed
  qed
  from ne consider "r < r'" | "r' < r" by linarith
  then show False
  proof cases
    case 1
    from general [OF 1 rep dist min ev ev'] show False .
  next
    case 2
    from general [OF 2 rep(2) rep(1) dist [symmetric] min' ev' ev] show False .
  qed
qed

lemma binary64_nonneg:
  assumes "0 \<le> x"
  shows "0 \<le> binary64 x"
proof -
  have "x / 2 ^ 53 \<le> x" using assms by (simp add: field_simps)
  with binary64_error [OF assms] show ?thesis by linarith
qed

lemma rate_error:
  fixes u t :: nat
  assumes "0 < t"
  defines "x \<equiv> 100 * of_nat u / (of_nat t :: rat)"
  defines "y \<equiv> fmul (fdiv (of_nat u) (of_nat t)) 100"
  shows "\<bar>y - x\<bar> \<le> x * (2 / 2 ^ 53 + 1 / 2 ^ 106)" and "0 \<le> y"
proof -
  define q where "q = of_nat u / (of_nat t :: rat)"
  define d where "d = binary64 q"
  have q0: "0 \<le> q" by (simp add: q_def)
  have dq: "\<bar>d - q\<bar> \<le> q / 2 ^ 53" unfolding d_def using binary64_error [OF q0] .
  have "q / 2 ^ 53 \<le> q" using q0 by (simp add: field_simps)
  with dq have d0: "0 \<le> d" by linarith
  have d100: "0 \<le> d * 100" using d0 by simp
  have y: "y = binary64 (d * 100)" by (simp add: y_def fmul_def fdiv_def d_def q_def)
  have yd: "\<bar>y - d * 100\<bar> \<le> d * 100 / 2 ^ 53" unfolding y using binary64_error [OF d100] .
  have xq: "x = 100 * q" by (simp add: x_def q_def)
  have "d * 100 / 2 ^ 53 \<le> d * 100" using d0 by (simp add: field_simps)
  with yd show "0 \<le> y" by linarith
  have dub: "d \<le> q + q / 2 ^ 53" using dq by linarith
  have "\<bar>y - x\<bar> = \<bar>(y - d * 100) + 100 * (d - q)\<bar>" unfolding xq by (simp add: algebra_simps)
  also have "\<dots> \<le> \<bar>y - d * 100\<bar> + \<bar>100 * (d - q)\<bar>" by (rule abs_triangle_ineq)
  also have "\<dots> = \<bar>y - d * 100\<bar> + 100 * \<bar>d - q\<bar>" by (subst abs_mult) simp
  also have "\<dots> \<le> d * 100 / 2 ^ 53 + 100 * (q / 2 ^ 53)"
    using yd dq by (intro add_mono mult_left_mono) auto
  also have "\<dots> \<le> (q + q / 2 ^ 53) * 100 / 2 ^ 53 + 100 * (q / 2 ^ 53)"
    using dub by (simp add: divide_right_mono)
  also have "\<dots> = x * (2 / 2 ^ 53 + 1 / 2 ^ 106)" unfolding xq by (simp add: field_simps)
  finally show "\<bar>y - x\<bar> \<le> x * (2 / 2 ^ 53 + 1 / 2 ^ 106)" .
qed

lemma percentage_zero_den: "percentage u 0 = ''0.0''"
  by (simp add: percentage_def)

lemma percentage_zero_num: "percentage 0 t = ''0.0''"
  by (simp add: percentage_def fmul_def fdiv_def binary64_def toFixed1_def toFixed1_tenths_def
        show_tenths_def show_nat.simps digit_char_def)

lemma percentage_nearest:
  fixes u t :: nat
  assumes t: "0 < t" and u: "u \<le> 10 ^ 12"
  shows "\<exists>k. percentage u t = show_tenths k
           \<and> \<bar>of_nat k / 10 - 100 * of_nat u / (of_nat t :: rat)\<bar> \<le> 1 / 20"
proof -
  define T :: rat where "T = of_nat t"
  define U :: rat where "U = of_nat u"
  define E :: rat where "E = 2 / 2 ^ 53 + 1 / 2 ^ 106"
  define x where "x = 100 * U / T"
  define y where "y = fmul (fdiv (of_nat u) (of_nat t)) 100"
  define k where "k = toFixed1_tenths y"
  define K :: rat where "K = of_int k"
  define W where "W = y * T"
  have T0: "0 < T" using t by (simp add: T_def)
  have U0: "0 \<le> U" by (simp add: U_def)
  have Ub: "U \<le> 10 ^ 12" using u unfolding U_def by (metis of_nat_le_iff of_nat_numeral of_nat_power)
  have err: "\<bar>y - x\<bar> \<le> x * E" and y0: "0 \<le> y"
    using rate_error [OF t, of u] by (simp_all add: x_def y_def E_def T_def U_def)
  have xT: "x * T = 100 * U" using T0 by (simp add: x_def)
  have "(y - x) * T = y * T - x * T" by (rule left_diff_distrib)
  then have d: "(y - x) * T = W - 100 * U" by (simp only: xT W_def)
  have "\<bar>W - 100 * U\<bar> = \<bar>y - x\<bar> * T" using T0 by (simp add: d [symmetric] abs_mult)
  also have "\<dots> \<le> x * E * T" using err T0 by (intro mult_right_mono) auto
  also have "x * E * T = x * T * E" by simp
  also have "\<dots> = 100 * U * E" by (simp only: xT)
  finally have a: "\<bar>W - 100 * U\<bar> \<le> 100 * U * E" .
  have fl: "K \<le> y * 10 + 1 / 2" "y * 10 + 1 / 2 < K + 1"
    unfolding K_def k_def toFixed1_tenths_def by linarith+
  have b1: "K * T \<le> 10 * W + T / 2"
  proof -
    have "K * T \<le> (y * 10 + 1 / 2) * T" using fl(1) T0 by (intro mult_right_mono) auto
    then show ?thesis by (simp add: W_def algebra_simps)
  qed
  have b2: "10 * W + T / 2 < K * T + T"
  proof -
    have "(y * 10 + 1 / 2) * T < (K + 1) * T" using fl(2) T0 by (intro mult_strict_right_mono) auto
    then show ?thesis by (simp add: W_def algebra_simps)
  qed
  have "2000 * U * E \<le> 2000 * 10 ^ 12 * E" using Ub by (simp add: E_def)
  also have "\<dots> < 1" by (simp add: E_def)
  finally have small: "2000 * U * E < 1" .
  define N :: int where "N = 2 * k * int t - 2000 * int u"
  have Nrat: "of_int N = 2 * (K * T) - 2000 * U"
    by (simp add: N_def K_def T_def U_def)
  have up: "N \<le> int t"
  proof (rule ccontr)
    assume "\<not> N \<le> int t"
    then have "int t + 1 \<le> N" by simp
    then have "(of_int (int t + 1) :: rat) \<le> of_int N" by (simp only: of_int_le_iff)
    then have "T + 1 \<le> 2 * (K * T) - 2000 * U" by (simp add: Nrat T_def)
    with b1 a small show False by linarith
  qed
  have lo: "- int t \<le> N"
  proof (rule ccontr)
    assume "\<not> - int t \<le> N"
    then have "N \<le> - int t - 1" by simp
    then have "(of_int N :: rat) \<le> of_int (- int t - 1)" by (simp only: of_int_le_iff)
    then have "2 * (K * T) - 2000 * U \<le> - T - 1" by (simp add: Nrat T_def)
    with b2 a small show False by linarith
  qed
  have "(of_int N :: rat) \<le> of_int (int t)" "(of_int (- int t) :: rat) \<le> of_int N"
    using up lo by (simp_all only: of_int_le_iff)
  then have "\<bar>2 * (K * T) - 2000 * U\<bar> \<le> T" by (simp add: Nrat T_def abs_le_iff)
  then have "\<bar>(K / 10 - 100 * U / T) * (20 * T)\<bar> \<le> T"
    using T0 by (simp add: algebra_simps)
  then have "\<bar>K / 10 - 100 * U / T\<bar> * (20 * T) \<le> 1 / 20 * (20 * T)"
    using T0 by (simp add: abs_mult)
  then have near: "\<bar>K / 10 - 100 * U / T\<bar> \<le> 1 / 20"
    using T0 by (simp only: mult_le_cancel_right)
  have k0: "0 \<le> k" using y0 by (simp add: k_def toFixed1_tenths_def)
  have "percentage u t = show_tenths (nat k)"
    using t y0 by (simp add: percentage_def toFixed1_def k_def y_def)
  moreover have "(of_nat (nat k) :: rat) = K" using k0 by (simp add: K_def)
  ultimately show ?thesis using near unfolding T_def U_def by metis
qed

lemma percentage_double:
  fixes num den :: nat
  assumes "0 < den"
  shows "\<exists>q y k. nearest_double (of_nat num / of_nat den) q \<and> nearest_double (q * 100) y
           \<and> of_nat k - 1 / 2 \<le> y * 10 \<and> y * 10 < of_nat k + 1 / 2
           \<and> percentage num den = show_tenths k"
proof -
  define q where "q = binary64 (of_nat num / of_nat den)"
  define y where "y = binary64 (q * 100)"
  define k where "k = nat (toFixed1_tenths y)"
  have x0: "(0::rat) \<le> of_nat num / of_nat den" by simp
  have q0: "0 \<le> q" unfolding q_def by (rule binary64_nonneg [OF x0])
  then have q100: "0 \<le> q * 100" by simp
  have y0: "0 \<le> y" unfolding y_def by (rule binary64_nonneg [OF q100])
  have t0: "0 \<le> toFixed1_tenths y" using y0 by (simp add: toFixed1_tenths_def)
  then have K: "(of_nat k :: rat) = of_int (toFixed1_tenths y)" by (simp add: k_def)
  have fl: "of_int (toFixed1_tenths y) \<le> y * 10 + 1 / 2" "y * 10 + 1 / 2 < of_int (toFixed1_tenths y) + 1"
    unfolding toFixed1_tenths_def by linarith+
  have "nearest_double (of_nat num / of_nat den) q" unfolding q_def by (rule binary64_nearest [OF x0])
  moreover have "nearest_double (q * 100) y" unfolding y_def by (rule binary64_nearest [OF q100])
  moreover have "of_nat k - 1 / 2 \<le> y * 10" "y * 10 < of_nat k + 1 / 2" using fl unfolding K by linarith+
  moreover have "percentage num den = show_tenths k"
    using assms y0 by (simp add: percentage_def toFixed1_def k_def y_def q_def fmul_def fdiv_def)
  ultimately show ?thesis by blast
qed

lemma round_half_even_eq:
  fixes z :: rat
  assumes "of_int m - 1 / 2 < z" and "z < of_int m + 1 / 2"
  shows "round_half_even z = m"
proof -
  have "\<bar>of_int (round_half_even z) - z\<bar> \<le> 1 / 2" by (rule round_half_even_error)
  with assms have "(of_int (round_half_even z) :: rat) < of_int m + 1" "(of_int m :: rat) < of_int (round_half_even z) + 1"
    by linarith+
  then have "(of_int (round_half_even z) :: rat) < of_int (m + 1)" "(of_int m :: rat) < of_int (round_half_even z + 1)"
    by simp_all
  then have "round_half_even z < m + 1" "m < round_half_even z + 1"
    by (simp_all only: of_int_less_iff)
  then show ?thesis by simp
qed

lemma binary64_pos_eval:
  fixes x :: rat
  assumes x: "0 < x" and low: "2 ^ 52 \<le> x * 2 ^ k" and high: "x * 2 ^ k < 2 ^ 53"
    and m: "of_int m - 1 / 2 < x * 2 ^ k" "x * 2 ^ k < of_int m + 1 / 2"
  shows "binary64_pos x = of_int m / 2 ^ k"
proof -
  from binary64_pos_significand [OF x] obtain e where
    eq: "binary64_pos x = of_int (round_half_even (x / 2 powi e)) * 2 powi e"
    and l: "2 ^ 52 \<le> x / 2 powi e" and h: "x / 2 powi e < 2 ^ 53" by blast
  define P :: rat where "P = 2 powi e"
  define Q :: rat where "Q = 2 powi (- int k)"
  have P: "0 < P" and Q: "0 < Q" by (simp_all add: P_def Q_def)
  have Qk: "Q = 1 / 2 ^ k" by (simp add: Q_def power_int_minus field_simps)
  have lP: "2 ^ 52 * P \<le> x" and hP: "x < 2 ^ 53 * P"
    using l h P by (simp_all add: P_def [symmetric] pos_le_divide_eq pos_divide_less_eq)
  have lQ: "2 ^ 52 * Q \<le> x" and hQ: "x < 2 ^ 53 * Q"
    using low high by (simp_all add: Qk field_simps)
  have "e = - int k"
  proof (rule ccontr)
    assume "e \<noteq> - int k"
    then consider "e + 1 \<le> - int k" | "- int k + 1 \<le> e" by linarith
    then show False
    proof cases
      case 1
      then have "(2::rat) powi (e + 1) \<le> 2 powi (- int k)" by (intro power_int_increasing) auto
      then have "P * 2 \<le> Q" by (simp add: P_def Q_def power_int_add)
      with hP lQ show False by simp
    next
      case 2
      have pe: "(2::rat) powi (- int k + 1) = 2 powi (- int k) * 2" by (rule power_int_add_1) simp
      from 2 have "(2::rat) powi (- int k + 1) \<le> 2 powi e" by (intro power_int_increasing) auto
      then have "Q * 2 \<le> P" unfolding pe by (simp only: P_def Q_def)
      with hQ lP show False by simp
    qed
  qed
  then have z: "x / 2 powi e = x * 2 ^ k" and p: "(2::rat) powi e = 1 / 2 ^ k"
    by (simp_all add: power_int_minus field_simps)
  have "round_half_even (x * 2 ^ k) = m" using m by (rule round_half_even_eq)
  then show ?thesis by (simp add: eq z p)
qed

lemma rate_23_80: "percentage 23 80 = ''28.7''"
proof -
  have q: "fdiv (of_nat 23) (of_nat 80) = 5179139571476070 / 2 ^ 54"
    unfolding fdiv_def binary64_def
    using binary64_pos_eval [of "of_nat 23 / of_nat 80" 54 5179139571476070] by simp
  have y: "fmul (5179139571476070 / 2 ^ 54) 100 = 8092405580431359 / 2 ^ 48"
    unfolding fmul_def binary64_def
    using binary64_pos_eval [of "5179139571476070 / 2 ^ 54 * 100" 48 8092405580431359] by simp
  have t: "toFixed1_tenths (8092405580431359 / 2 ^ 48) = 287"
    unfolding toFixed1_tenths_def by (rule floor_unique) simp_all
  show ?thesis
    unfolding percentage_def q y toFixed1_def t
    by (simp add: show_tenths_def show_nat.simps digit_char_def)
qed

lemma rate_3_48: "percentage 3 48 = ''6.3''"
proof -
  have q: "fdiv (of_nat 3) (of_nat 48) = 4503599627370496 / 2 ^ 56"
    unfolding fdiv_def binary64_def
    using binary64_pos_eval [of "of_nat 3 / of_nat 48" 56 4503599627370496] by simp
  have y: "fmul (4503599627370496 / 2 ^ 56) 100 = 7036874417766400 / 2 ^ 50"
    unfolding fmul_def binary64_def
    using binary64_pos_eval [of "4503599627370496 / 2 ^ 56 * 100" 50 7036874417766400] by simp
  have t: "toFixed1_tenths (7036874417766400 / 2 ^ 50) = 63"
    unfolding toFixed1_tenths_def by (rule floor_unique) simp_all
  show ?thesis
    unfolding percentage_def q y toFixed1_def t
    by (simp add: show_tenths_def show_nat.simps digit_char_def)
qed

lemma rate_large: "percentage 11330000000115 20000000000203 = ''56.6''"
proof -
  have q: "fdiv (of_nat 11330000000115) (of_nat 20000000000203) = 5102578377810772 / 2 ^ 53"
    unfolding fdiv_def binary64_def
    using binary64_pos_eval [of "of_nat 11330000000115 / of_nat 20000000000203" 53 5102578377810772] by simp
  have y: "fmul (5102578377810772 / 2 ^ 53) 100 = 7972778715329331 / 2 ^ 47"
    unfolding fmul_def binary64_def
    using binary64_pos_eval [of "5102578377810772 / 2 ^ 53 * 100" 47 7972778715329331] by simp
  have t: "toFixed1_tenths (7972778715329331 / 2 ^ 47) = 566"
    unfolding toFixed1_tenths_def by (rule floor_unique) simp_all
  show ?thesis
    unfolding percentage_def q y toFixed1_def t
    by (simp add: show_tenths_def show_nat.simps digit_char_def)
qed

section \<open>The statistics summary\<close>

lemma stats_text_summary:
  "stats_text data tag fromDate toDate =
     summary_text (or_zero (Sent data))
       (percentage (or_zero (UniqueOpens data)) (or_zero (Tracked data)))
       (or_zero (UniqueOpens data)) (or_zero (Tracked data))
       (percentage (or_zero (UniqueLinksClicked data)) (or_zero (TotalTrackedLinksSent data)))
       (or_zero (UniqueLinksClicked data)) (or_zero (TotalTrackedLinksSent data))
     @ period_lines tag fromDate toDate"
  by (simp add: stats_text_def summary_text_def period_lines_def Let_def)

lemma getDeliveryStats_ok:
  "fetch (stats_request env tag fromDate toDate) = Inr response \<Longrightarrow> ok response \<Longrightarrow>
   json response = Inr data \<Longrightarrow>
   getDeliveryStats_handler env fetch tag fromDate toDate =
     ([stats_request env tag fromDate toDate], Inr [TextContent (stats_text data tag fromDate toDate)])"
  by (simp add: getDeliveryStats_handler_def Let_def)

lemma or_zero_falsy: "falsy v \<Longrightarrow> or_zero v = 0"
  by (auto simp: falsy_def or_zero_def)

lemma show_nat_0: "show_nat 0 = ''0''"
  by (simp add: show_nat.simps digit_char_def)

lemma rate_45_99: "percentage 45 99 = ''45.5''"
proof -
  from percentage_nearest [of 99 45] obtain k where
    k: "percentage 45 99 = show_tenths k"
       "\<bar>of_nat k / 10 - 100 * of_nat 45 / (of_nat 99 :: rat)\<bar> \<le> 1 / 20" by auto
  from k(2) have "\<bar>of_nat k / 10 - 500 / 11\<bar> \<le> (1 / 20 :: rat)" by simp
  then have "454 < (of_nat k :: rat)" "(of_nat k :: rat) < 456" by linarith+
  then have "454 < k" "k < 456" by simp_all
  then have "k = 455" by simp
  then show ?thesis using k(1) by (simp add: show_tenths_def show_nat.simps digit_char_def)
qed

lemma rate_15_99: "percentage 15 99 = ''15.2''"
proof -
  from percentage_nearest [of 99 15] obtain k where
    k: "percentage 15 99 = show_tenths k"
       "\<bar>of_nat k / 10 - 100 * of_nat 15 / (of_nat 99 :: rat)\<bar> \<le> 1 / 20" by auto
  from k(2) have "\<bar>of_nat k / 10 - 500 / 33\<bar> \<le> (1 / 20 :: rat)" by simp
  then have "151 < (of_nat k :: rat)" "(of_nat k :: rat) < 153" by linarith+
  then have "151 < k" "k < 153" by simp_all
  then have "k = 152" by simp
  then show ?thesis using k(1) by (simp add: show_tenths_def show_nat.simps digit_char_def)
qed

lemma claimed_rate_23_80: "claimed_rate 23 80 = ''28.8''"
proof -
  have "\<lfloor>100 * of_nat 23 / (of_nat 80 :: rat) * 10 + 1 / 2\<rfloor> = 288"
    by (rule floor_unique) simp_all
  then show ?thesis
    by (simp add: claimed_rate_def show_tenths_def show_nat.simps digit_char_def)
qed

lemma claimed_rate_large: "claimed_rate 11330000000115 20000000000203 = ''56.7''"
proof -
  have "\<lfloor>100 * of_nat 11330000000115 / (of_nat 20000000000203 :: rat) * 10 + 1 / 2\<rfloor> = 567"
    by (rule floor_unique) simp_all
  then show ?thesis
    by (simp add: claimed_rate_def show_tenths_def show_nat.simps digit_char_def)
qed

text \<open>
  C4. The claim: a rate with a non-zero denominator equals numerator / denominator * 100
  rounded to one decimal place. The handler rounds three times, in double arithmetic and
  then to one decimal. For 23 opens of 80 tracked emails (exactly 28.75 percent) it
  reports 28.7 where rounding the exact percentage gives 28.8, and for 11330000000115 of
  20000000000203 (more than 56.65 percent) it reports 56.6, which is more than 0.05 away
  from the exact percentage, where every rounding to the nearest tenth gives 56.7.
\<close>

theorem C4_counterexample:
  "snd (getDeliveryStats_handler example_env ties_fetch None None None) =
     Inr [TextContent
       ''Email Statistics Summary\<newline>\<newline>Sent: 80 emails\<newline>Open Rate: 28.7% (23/80 tracked emails)\<newline>Click Rate: 6.3% (3/48 tracked links)\<newline>\<newline>'']
   \<and> claimed_rate 23 80 = ''28.8''
   \<and> percentage 11330000000115 20000000000203 = ''56.6''
   \<and> claimed_rate 11330000000115 20000000000203 = ''56.7''
   \<and> (1 / 20 :: rat) < \<bar>566 / 10 - 100 * of_nat 11330000000115 / of_nat 20000000000203\<bar>"
proof -
  have z: "or_zero (Sent ties_data) = 80" "or_zero (Tracked ties_data) = 80"
    "or_zero (UniqueOpens ties_data) = 23" "or_zero (TotalTrackedLinksSent ties_data) = 48"
    "or_zero (UniqueLinksClicked ties_data) = 3"
    by (simp_all add: or_zero_def ties_data_def)
  have h: "snd (getDeliveryStats_handler example_env ties_fetch None None None) =
     Inr [TextContent (stats_text ties_data None None None)]"
    by (simp add: getDeliveryStats_handler_def ties_fetch_def ties_response_def ok_def Let_def)
  show ?thesis
    unfolding h
    by (simp add: stats_text_summary z rate_23_80 rate_3_48 rate_large claimed_rate_23_80
          claimed_rate_large summary_text_def period_lines_def truthy_def show_nat.simps digit_char_def)
qed

text \<open>
  C4, amended. A statistics request with a successful response never fails, whatever the
  counts. When the tracked count is 0 the reported open rate is "0.0", and when the count
  of tracked links is 0 the reported click rate is "0.0". Otherwise a rate is computed in
  double arithmetic: numerator / denominator is rounded to the nearest double, its product
  with 100 is rounded to the nearest double, and the rate is the numeral with one decimal
  nearest to that double, the larger one of two. For a numerator of at most \<open>10^12\<close>
  this is within 0.05 of the exact percentage \<open>100 * numerator / denominator\<close>.
\<close>

theorem C4_rates:
  assumes "fetch (stats_request env tag fromDate toDate) = Inr response"
    and "ok response" and "json response = Inr data"
  defines "tracked \<equiv> or_zero (Tracked data)" and "uniqueOpens \<equiv> or_zero (UniqueOpens data)"
    and "totalTrackedLinks \<equiv> or_zero (TotalTrackedLinksSent data)"
    and "uniqueLinksClicked \<equiv> or_zero (UniqueLinksClicked data)"
  shows "snd (getDeliveryStats_handler env fetch tag fromDate toDate) =
           Inr [TextContent (summary_text (or_zero (Sent data))
                  (percentage uniqueOpens tracked) uniqueOpens tracked
                  (percentage uniqueLinksClicked totalTrackedLinks) uniqueLinksClicked totalTrackedLinks
                @ period_lines tag fromDate toDate)]
     \<and> (tracked = 0 \<longrightarrow> percentage uniqueOpens tracked = ''0.0'')
     \<and> (totalTrackedLinks = 0 \<longrightarrow> percentage uniqueLinksClicked totalTrackedLinks = ''0.0'')
     \<and> (tracked \<noteq> 0 \<longrightarrow>
          (\<exists>q y k. nearest_double (of_nat uniqueOpens / of_nat tracked) q
              \<and> nearest_double (q * 100) y
              \<and> of_nat k - 1 / 2 \<le> y * 10 \<and> y * 10 < of_nat k + 1 / 2
              \<and> percentage uniqueOpens tracked = show_tenths k))
     \<and> (totalTrackedLinks \<noteq> 0 \<longrightarrow>
          (\<exists>q y k. nearest_double (of_nat uniqueLinksClicked / of_nat totalTrackedLinks) q
              \<and> nearest_double (q * 100) y
              \<and> of_nat k - 1 / 2 \<le> y * 10 \<and> y * 10 < of_nat k + 1 / 2
              \<and> percentage uniqueLinksClicked totalTrackedLinks = show_tenths k))
     \<and> (tracked \<noteq> 0 \<and> uniqueOpens \<le> 10 ^ 12 \<longrightarrow>
          (\<exists>k. percentage uniqueOpens tracked = show_tenths k
              \<and> \<bar>of_nat k / 10 - 100 * of_nat uniqueOpens / (of_nat tracked :: rat)\<bar> \<le> 1 / 20))
     \<and> (totalTrackedLinks \<noteq> 0 \<and> uniqueLinksClicked \<le> 10 ^ 12 \<longrightarrow>
          (\<exists>k. percentage uniqueLinksClicked totalTrackedLinks = show_tenths k
              \<and> \<bar>of_nat k / 10 - 100 * of_nat uniqueLinksClicked / (of_nat totalTrackedLinks :: rat)\<bar> \<le> 1 / 20))"
proof (intro conjI impI)
  show "snd (getDeliveryStats_handler env fetch tag fromDate toDate) =
           Inr [TextContent (summary_text (or_zero (Sent data))
                  (percentage uniqueOpens tracked) uniqueOpens tracked
                  (percentage uniqueLinksClicked totalTrackedLinks) uniqueLinksClicked totalTrackedLinks
                @ period_lines tag fromDate toDate)]"
    unfolding tracked_def uniqueOpens_def totalTrackedLinks_def uniqueLinksClicked_def
    using assms(1-3) by (simp add: getDeliveryStats_ok stats_text_summary)
next
  assume "tracked = 0"
  then show "percentage uniqueOpens tracked = ''0.0''" by (simp add: percentage_zero_den)
next
  assume "totalTrackedLinks = 0"
  then show "percentage uniqueLinksClicked totalTrackedLinks = ''0.0''" by (simp add: percentage_zero_den)
next
  assume "tracked \<noteq> 0"
  then have "0 < tracked" by simp
  then show "\<exists>q y k. nearest_double (of_nat uniqueOpens / of_nat tracked) q
              \<and> nearest_double (q * 100) y
              \<and> of_nat k - 1 / 2 \<le> y * 10 \<and> y * 10 < of_nat k + 1 / 2
              \<and> percentage uniqueOpens tracked = show_tenths k"
    by (rule percentage_double)
next
  assume "totalTrackedLinks \<noteq> 0"
  then have "0 < totalTrackedLinks" by simp
  then show "\<exists>q y k. nearest_double (of_nat uniqueLinksClicked / of_nat totalTrackedLinks) q
              \<and> nearest_double (q * 100) y
              \<and> of_nat k - 1 / 2 \<le> y * 10 \<and> y * 10 < of_nat k + 1 / 2
              \<and> percentage uniqueLinksClicked totalTrackedLinks = show_tenths k"
    by (rule percentage_double)
next
  assume "tracked \<noteq> 0 \<and> uniqueOpens \<le> 10 ^ 12"
  then show "\<exists>k. percentage uniqueOpens tracked = show_tenths k
              \<and> \<bar>of_nat k / 10 - 100 * of_nat uniqueOpens / (of_nat tracked :: rat)\<bar> \<le> 1 / 20"
    using percentage_nearest [of tracked uniqueOpens] by simp
next
  assume "totalTrackedLinks \<noteq> 0 \<and> uniqueLinksClicked \<le> 10 ^ 12"
  then show "\<exists>k. percentage uniqueLinksClicked totalTrackedLinks = show_tenths k
              \<and> \<bar>of_nat k / 10 - 100 * of_nat uniqueLinksClicked / (of_nat totalTrackedLinks :: rat)\<bar> \<le> 1 / 20"
    using percentage_nearest [of totalTrackedLinks uniqueLinksClicked] by simp
qed

theorem C4_witness:
  "scenario_fetch (stats_request example_env (Some ''marketing'') (Some ''2025-05-01'') (Some ''2025-05-15''))
     = Inr scenario_response
   \<and> ok scenario_response \<and> json scenario_response = Inr scenario_data
   \<and> or_zero (Tracked scenario_data) \<noteq> 0 \<and> or_zero (UniqueOpens scenario_data) \<le> 10 ^ 12
   \<and> or_zero (TotalTrackedLinksSent scenario_data) \<noteq> 0
   \<and> or_zero (UniqueLinksClicked scenario_data) \<le> 10 ^ 12
   \<and> snd (getDeliveryStats_handler example_env scenario_fetch (Some ''marketing'') (Some ''2025-05-01'')
            (Some ''2025-05-15'')) =
       Inr [TextContent
         ''Email Statistics Summary\<newline>\<newline>Sent: 100 emails\<newline>Open Rate: 45.5% (45/99 tracked emails)\<newline>Click Rate: 15.2% (15/99 tracked links)\<newline>\<newline>Period: 2025-05-01 to 2025-05-15\<newline>Tag: marketing\<newline>'']
   \<and> empty_fetch (stats_request example_env None None None) = Inr empty_response
   \<and> ok empty_response \<and> json empty_response = Inr empty_data
   \<and> or_zero (Tracked empty_data) = 0 \<and> or_zero (TotalTrackedLinksSent empty_data) = 0
   \<and> percentage (or_zero (UniqueOpens empty_data)) (or_zero (Tracked empty_data)) = ''0.0''
   \<and> percentage (or_zero (UniqueLinksClicked empty_data)) (or_zero (TotalTrackedLinksSent empty_data)) = ''0.0''"
proof -
  have f: "scenario_fetch (stats_request example_env (Some ''marketing'') (Some ''2025-05-01'')
      (Some ''2025-05-15'')) = Inr scenario_response"
    by (simp add: scenario_fetch_def)
  have o: "ok scenario_response" by (simp add: ok_def scenario_response_def)
  have j: "json scenario_response = Inr scenario_data" by (simp add: scenario_response_def)
  have z: "or_zero (Sent scenario_data) = 100" "or_zero (Tracked scenario_data) = 99"
    "or_zero (UniqueOpens scenario_data) = 45" "or_zero (TotalTrackedLinksSent scenario_data) = 99"
    "or_zero (UniqueLinksClicked scenario_data) = 15"
    by (simp_all add: or_zero_def scenario_data_def)
  have f': "empty_fetch (stats_request example_env None None None) = Inr empty_response"
    by (simp add: empty_fetch_def)
  have o': "ok empty_response" by (simp add: ok_def empty_response_def)
  have j': "json empty_response = Inr empty_data" by (simp add: empty_response_def)
  have z': "or_zero (Tracked empty_data) = 0" "or_zero (TotalTrackedLinksSent empty_data) = 0"
    by (simp_all add: or_zero_def empty_data_def)
  from C4_rates [of scenario_fetch example_env "Some ''marketing''" "Some ''2025-05-01''"
      "Some ''2025-05-15''" scenario_response scenario_data, OF f o j]
    C4_rates [of empty_fetch example_env None None None empty_response empty_data, OF f' o' j']
    f o j f' o' j' z'
  show ?thesis
    by (simp add: z rate_45_99 rate_15_99 summary_text_def period_lines_def truthy_def or_default_def
          to_text_def show_nat.simps digit_char_def)
qed

text \<open>
  C10. With a successful response the handler returns the summary whatever fields the body
  lacks. A field that is missing, \<open>null\<close> or zero is reported as 0, and a rate whose
  numerator or denominator is such a field is reported as "0.0".
\<close>

theorem C10_missing_fields_are_zero:
  assumes "fetch (stats_request env tag fromDate toDate) = Inr response"
    and "ok response" and "json response = Inr data"
  shows "snd (getDeliveryStats_handler env fetch tag fromDate toDate) =
           Inr [TextContent (summary_text (or_zero (Sent data))
                  (percentage (or_zero (UniqueOpens data)) (or_zero (Tracked data)))
                  (or_zero (UniqueOpens data)) (or_zero (Tracked data))
                  (percentage (or_zero (UniqueLinksClicked data)) (or_zero (TotalTrackedLinksSent data)))
                  (or_zero (UniqueLinksClicked data)) (or_zero (TotalTrackedLinksSent data))
                @ period_lines tag fromDate toDate)]
     \<and> show_nat 0 = ''0''
     \<and> (falsy (Sent data) \<longrightarrow> or_zero (Sent data) = 0)
     \<and> (falsy (Tracked data) \<longrightarrow> or_zero (Tracked data) = 0)
     \<and> (falsy (UniqueOpens data) \<longrightarrow> or_zero (UniqueOpens data) = 0)
     \<and> (falsy (TotalTrackedLinksSent data) \<longrightarrow> or_zero (TotalTrackedLinksSent data) = 0)
     \<and> (falsy (UniqueLinksClicked data) \<longrightarrow> or_zero (UniqueLinksClicked data) = 0)
     \<and> (falsy (Tracked data) \<or> falsy (UniqueOpens data) \<longrightarrow>
          percentage (or_zero (UniqueOpens data)) (or_zero (Tracked data)) = ''0.0'')
     \<and> (falsy (TotalTrackedLinksSent data) \<or> falsy (UniqueLinksClicked data) \<longrightarrow>
          percentage (or_zero (UniqueLinksClicked data)) (or_zero (TotalTrackedLinksSent data)) = ''0.0'')"
  using assms
  by (auto simp: getDeliveryStats_ok stats_text_summary or_zero_falsy show_nat_0 percentage_zero_den percentage_zero_num)

theorem C10_witness:
  "empty_fetch (stats_request example_env None None None) = Inr empty_response
   \<and> ok empty_response \<and> json empty_response = Inr empty_data
   \<and> falsy (Sent empty_data) \<and> falsy (Tracked empty_data) \<and> falsy (UniqueOpens empty_data)
   \<and> falsy (TotalTrackedLinksSent empty_data) \<and> falsy (UniqueLinksClicked empty_data)
   \<and> snd (getDeliveryStats_handler example_env empty_fetch None None None) =
       Inr [TextContent
         ''Email Statistics Summary\<newline>\<newline>Sent: 0 emails\<newline>Open Rate: 0.0% (0/0 tracked emails)\<newline>Click Rate: 0.0% (0/0 tracked links)\<newline>\<newline>'']"
proof -
  have f: "empty_fetch (stats_request example_env None None None) = Inr empty_response"
    by (simp add: empty_fetch_def)
  have o: "ok empty_response" by (simp add: ok_def empty_response_def)
  have j: "json empty_response = Inr empty_data" by (simp add: empty_response_def)
  have fs: "falsy (Sent empty_data)" "falsy (Tracked empty_data)" "falsy (UniqueOpens empty_data)"
    "falsy (TotalTrackedLinksSent empty_data)" "falsy (UniqueLinksClicked empty_data)"
    by (simp_all add: falsy_def empty_data_def)
  from C10_missing_fields_are_zero [of empty_fetch example_env None None None empty_response empty_data,
      OF f o j] fs f o j
  show ?thesis
    by (simp add: summary_text_def period_lines_def truthy_def or_zero_falsy percentage_zero_den
          show_nat_0)
qed

end
